theory Spec2Isabelle
  imports Complex_Main
begin

section \<open>Data model\<close>

text \<open>
  A \<open>Date\<close> is its time value: milliseconds since the epoch, as \<open>Date.getTime()\<close> and
  \<open>Date.now()\<close> give it. Quantities, thresholds and frequencies are the integers the
  data model describes (JavaScript numbers that hold integers).
\<close>

type_synonym date = int

text \<open>
  The interfaces of the \<open>types\<close> module, field for field. An optional field
  (\<open>endDate?\<close>) is an \<open>option\<close>. A field name that several interfaces share
  (\<open>id\<close>, \<open>medicineId\<close>, \<open>status\<close>) carries the interface as a suffix, and
  \<open>notes\<close> does too.
\<close>

record Medicine =
  id_med :: string
  name :: string
  dosage :: string
  frequency :: int
  totalQuantity :: int
  remainingQuantity :: int
  criticalThreshold :: int
  prescribedBy :: string
  startDate :: date
  endDate :: "date option"
  instructions :: string
  sideEffects :: "string list option"
  imageUrl :: "string option"

datatype dose_status = Pending | Taken | Missed | Snoozed | Taken_late

record DoseSchedule =
  id_sched :: string
  medicineId :: string
  scheduledTime :: date
  taken :: bool
  takenAt :: "date option"
  skipped :: bool
  status :: dose_status
  snoozeUntil :: "date option"
  notes_sched :: "string option"

text \<open>
  The status strings of a refill order and of the 1mg order response. The response type
  also has \<open>processing\<close>; \<open>autoRefillIfNeeded\<close> copies the response's string into
  the order (its \<open>as 'confirmed'\<close> is a type assertion without effect at run time).
\<close>

datatype order_status = Order_pending | Confirmed | Processing | Shipped | Delivered

record RefillOrder =
  id_order :: string
  medicineId_order :: string
  quantity :: int
  orderDate :: date
  estimatedDelivery :: date
  status_order :: order_status
  orderId1MG :: "string option"

section \<open>InventoryService\<close>

datatype stock_level = Critical | Low | Adequate

definition checkStockLevel :: "Medicine \<Rightarrow> stock_level" where
  "checkStockLevel medicine =
     (if remainingQuantity medicine \<le> criticalThreshold medicine then Critical
      else if remainingQuantity medicine \<le> criticalThreshold medicine * 2 then Low
      else Adequate)"

text \<open>
  \<open>Math.floor(a / b)\<close>: the quotient of the two numbers as a real, rounded down. The
  guard on a zero frequency comes first, as in the source.
\<close>

definition calculateDaysRemaining :: "Medicine \<Rightarrow> int" where
  "calculateDaysRemaining medicine =
     (if frequency medicine = 0 then 0
      else \<lfloor>real_of_int (remainingQuantity medicine) / real_of_int (frequency medicine)\<rfloor>)"

definition updateStock :: "string \<Rightarrow> Medicine list \<Rightarrow> bool \<Rightarrow> Medicine list" where
  "updateStock mid meds tk =
     map (\<lambda>medicine.
            if id_med medicine = mid \<and> tk
            then medicine\<lparr>remainingQuantity := max 0 (remainingQuantity medicine - 1)\<rparr>
            else medicine) meds"

text \<open>The image address that the three sample medicines share.\<close>

definition sample_imageUrl :: string where
  "sample_imageUrl =
     ''https://images.pexels.com/photos/3683097/pexels-photo-3683097.jpeg?auto=compress&cs=tinysrgb&w=400''"

text \<open>
  A medicine with the given id, name and stock figures; the other fields are those of the
  first medicine of the hook's sample data.
\<close>

definition sample_medicine :: "string \<Rightarrow> string \<Rightarrow> int \<Rightarrow> int \<Rightarrow> int \<Rightarrow> int \<Rightarrow> Medicine" where
  "sample_medicine i n f tot remaining threshold =
     \<lparr>id_med = i, name = n, dosage = ''500mg'', frequency = f, totalQuantity = tot,
      remainingQuantity = remaining, criticalThreshold = threshold,
      prescribedBy = ''Dr. Sharma'', startDate = 1704067200000, endDate = None,
      instructions = ''Take with meals'', sideEffects = Some [''Nausea'', ''Diarrhea''],
      imageUrl = Some sample_imageUrl\<rparr>"

section \<open>Numbers as text\<close>

text \<open>\<open>Number.prototype.toString()\<close> on an integer: its decimal digits, with a minus sign.\<close>

definition digit :: "nat \<Rightarrow> char" where
  "digit n = ''0123456789'' ! (n mod 10)"

function show_nat :: "nat \<Rightarrow> string" where
  "show_nat n = (if n < 10 then [digit n] else show_nat (n div 10) @ [digit (n mod 10)])"
  by pat_completeness auto
termination
  by (relation "measure id") auto

declare show_nat.simps [simp del]

definition toString :: "int \<Rightarrow> string" where
  "toString i = (if i < 0 then ''-'' @ show_nat (nat (- i)) else show_nat (nat i))"

section \<open>The 1mg adapter and the auto-refill\<close>

text \<open>
  What the mock adapter reads from its environment during one auto-refill: the draw of
  \<open>Math.random()\<close> in \<open>checkAvailability\<close>, the clock when \<open>placeOrder\<close> builds its
  response, and the clock when \<open>autoRefillIfNeeded\<close> builds the refill order. The
  simulated delays only pass time; neither call has a failing branch that the mock can
  reach, so the \<open>catch\<close> blocks around them have no counterpart here.
\<close>

record refill_env =
  availability_draw :: real
  order_clock :: date
  refill_clock :: date

datatype payment_status = Payment_pending | Payment_completed | Payment_failed

record OneMgOrderResponse =
  order_id :: string
  status_resp :: order_status
  estimated_delivery :: date
  tracking_id :: "string option"
  total_amount :: real
  payment_status_resp :: payment_status

definition checkAvailability :: "string \<Rightarrow> refill_env \<Rightarrow> bool" where
  "checkAvailability medId env = (availability_draw env > 1 / 10)"

definition placeOrder :: "string \<Rightarrow> int \<Rightarrow> refill_env \<Rightarrow> OneMgOrderResponse" where
  "placeOrder medId qty env =
     \<lparr>order_id = ''1MG'' @ toString (order_clock env),
      status_resp = Confirmed,
      estimated_delivery = order_clock env + 2 * 24 * 60 * 60 * 1000,
      tracking_id = Some (''TRK'' @ toString (order_clock env)),
      total_amount = real_of_int qty * (91 / 2),
      payment_status_resp = Payment_completed\<rparr>"

definition autoRefillIfNeeded :: "refill_env \<Rightarrow> Medicine \<Rightarrow> RefillOrder option" where
  "autoRefillIfNeeded env medicine =
     (if checkStockLevel medicine = Critical then
        (if checkAvailability (''1mg_'' @ id_med medicine) env then
           (let orderResponse =
                  placeOrder (''1mg_'' @ id_med medicine) (totalQuantity medicine) env
            in Some \<lparr>id_order = toString (refill_clock env),
                     medicineId_order = id_med medicine,
                     quantity = totalQuantity medicine,
                     orderDate = refill_clock env,
                     estimatedDelivery = estimated_delivery orderResponse,
                     status_order = status_resp orderResponse,
                     orderId1MG = Some (order_id orderResponse)\<rparr>)
         else None)
      else None)"

section \<open>Dates on the local clock\<close>

text \<open>
  \<open>getMinutes\<close> and \<open>setMinutes\<close> read and write the fields of the local clock. The
  language standard defines them through the offset of local time from UTC, which the host
  supplies: \<open>LocalTZA_utc tz t\<close> is the offset in force at the time value \<open>t\<close>, and
  \<open>LocalTZA_local tz l\<close> is the offset by which the local clock reading \<open>l\<close> is read back
  (a reading that occurs twice, or not at all, at a change of offset is read with the
  offset from before the change).
\<close>

record timezone =
  LocalTZA_utc :: "date \<Rightarrow> int"
  LocalTZA_local :: "int \<Rightarrow> int"

definition LocalTime :: "timezone \<Rightarrow> date \<Rightarrow> int" where
  "LocalTime tz t = t + LocalTZA_utc tz t"

definition UTC :: "timezone \<Rightarrow> int \<Rightarrow> date" where
  "UTC tz l = l - LocalTZA_local tz l"

definition Day :: "int \<Rightarrow> int" where
  "Day t = t div 86400000"

definition HourFromTime :: "int \<Rightarrow> int" where
  "HourFromTime t = (t div 3600000) mod 24"

definition MinFromTime :: "int \<Rightarrow> int" where
  "MinFromTime t = (t div 60000) mod 60"

definition SecFromTime :: "int \<Rightarrow> int" where
  "SecFromTime t = (t div 1000) mod 60"

definition msFromTime :: "int \<Rightarrow> int" where
  "msFromTime t = t mod 1000"

definition MakeTime :: "int \<Rightarrow> int \<Rightarrow> int \<Rightarrow> int \<Rightarrow> int" where
  "MakeTime hour minute sec ms = hour * 3600000 + minute * 60000 + sec * 1000 + ms"

definition MakeDate :: "int \<Rightarrow> int \<Rightarrow> int" where
  "MakeDate day time = day * 86400000 + time"

definition getMinutes :: "timezone \<Rightarrow> date \<Rightarrow> int" where
  "getMinutes tz t = MinFromTime (LocalTime tz t)"

definition setMinutes :: "timezone \<Rightarrow> date \<Rightarrow> int \<Rightarrow> date" where
  "setMinutes tz t minute =
     (let l = LocalTime tz t
      in UTC tz (MakeDate (Day l) (MakeTime (HourFromTime l) minute (SecFromTime l) (msFromTime l))))"

text \<open>A zone whose offset never changes; India Standard Time is \<open>fixed_zone 19800000\<close>.\<close>

definition fixed_zone :: "int \<Rightarrow> timezone" where
  "fixed_zone offset = \<lparr>LocalTZA_utc = (\<lambda>t. offset), LocalTZA_local = (\<lambda>l. offset)\<rparr>"

text \<open>
  New York by its rules for 2024: five hours behind UTC, and four hours behind between
  10 March 07:00 UTC (time value 1710054000000) and 3 November 06:00 UTC (1730613600000).
  The local readings from 02:00 to 03:00 on 10 March do not occur and those from 01:00 to
  02:00 on 3 November occur twice.
\<close>

definition new_york_2024 :: timezone where
  "new_york_2024 =
     \<lparr>LocalTZA_utc =
        (\<lambda>t. if 1710054000000 \<le> t \<and> t < 1730613600000 then - 14400000 else - 18000000),
      LocalTZA_local =
        (\<lambda>l. if l < 1710054000000 - 14400000 then - 18000000
             else if l < 1730613600000 - 14400000 then - 14400000
             else - 18000000)\<rparr>"

section \<open>Dose lifecycle (the useMedicineData hook)\<close>

text \<open>
  The hook's state: the three lists the operations write. Each operation is a function
  from the state before to the state after; \<open>now\<close> is the clock read by \<open>new Date()\<close>
  and \<open>tz\<close> the time zone of the host.
  The operation runs against the state of the render that created it, so the list it
  searches and the list its updater receives are the same list.
\<close>

record app_state =
  medicines :: "Medicine list"
  schedules :: "DoseSchedule list"
  refillOrders :: "RefillOrder list"

definition markDoseTaken :: "date \<Rightarrow> refill_env \<Rightarrow> string \<Rightarrow> app_state \<Rightarrow> app_state" where
  "markDoseTaken now env scheduleId st =
     (case find (\<lambda>s. id_sched s = scheduleId) (schedules st) of
        None \<Rightarrow> st
      | Some schedule \<Rightarrow>
          st\<lparr>schedules :=
               map (\<lambda>s. if id_sched s = scheduleId
                         then s\<lparr>taken := True, takenAt := Some now, status := Taken\<rparr>
                         else s) (schedules st),
             medicines := updateStock (medicineId schedule) (medicines st) True,
             refillOrders :=
               (case find (\<lambda>m. id_med m = medicineId schedule) (medicines st) of
                  None \<Rightarrow> refillOrders st
                | Some medicine \<Rightarrow>
                    (case autoRefillIfNeeded env medicine of
                       None \<Rightarrow> refillOrders st
                     | Some refillOrder \<Rightarrow> refillOrders st @ [refillOrder]))\<rparr>)"

definition skipDose :: "string \<Rightarrow> string option \<Rightarrow> app_state \<Rightarrow> app_state" where
  "skipDose scheduleId reason st =
     st\<lparr>schedules :=
          map (\<lambda>s. if id_sched s = scheduleId
                    then s\<lparr>skipped := True, status := Missed, notes_sched := reason\<rparr>
                    else s) (schedules st)\<rparr>"

definition snoozeDose :: "timezone \<Rightarrow> date \<Rightarrow> string \<Rightarrow> app_state \<Rightarrow> app_state" where
  "snoozeDose tz now scheduleId st =
     (let snoozeUntil' = setMinutes tz now (getMinutes tz now + 30)
      in st\<lparr>schedules :=
              map (\<lambda>s. if id_sched s = scheduleId
                        then s\<lparr>status := Snoozed, snoozeUntil := Some snoozeUntil'\<rparr>
                        else s) (schedules st)\<rparr>)"

definition markTakenLate :: "date \<Rightarrow> string \<Rightarrow> app_state \<Rightarrow> app_state" where
  "markTakenLate now scheduleId st =
     (let st' = st\<lparr>schedules :=
                     map (\<lambda>s. if id_sched s = scheduleId
                               then s\<lparr>taken := True, takenAt := Some now, status := Taken_late\<rparr>
                               else s) (schedules st)\<rparr>
      in case find (\<lambda>s. id_sched s = scheduleId) (schedules st) of
           None \<Rightarrow> st'
         | Some schedule \<Rightarrow>
             st'\<lparr>medicines := updateStock (medicineId schedule) (medicines st) True\<rparr>)"

text \<open>A run of the hook: the user's actions, one after the other.\<close>

datatype action =
    MarkDoseTaken date refill_env string
  | SkipDose string "string option"
  | SnoozeDose timezone date string
  | MarkTakenLate date string

fun step :: "app_state \<Rightarrow> action \<Rightarrow> app_state" where
  "step st (MarkDoseTaken now env scheduleId) = markDoseTaken now env scheduleId st"
| "step st (SkipDose scheduleId reason) = skipDose scheduleId reason st"
| "step st (SnoozeDose tz now scheduleId) = snoozeDose tz now scheduleId st"
| "step st (MarkTakenLate now scheduleId) = markTakenLate now scheduleId st"

definition run :: "app_state \<Rightarrow> action list \<Rightarrow> app_state" where
  "run st acts = foldl step st acts"

text \<open>The status is the authority; the two flags mirror it.\<close>

definition flags_consistent :: "DoseSchedule \<Rightarrow> bool" where
  "flags_consistent s =
     ((taken s = (status s = Taken \<or> status s = Taken_late))
      \<and> (skipped s = (status s = Missed)))"

subsection \<open>The sample data of the hook\<close>

definition sample_schedule :: "string \<Rightarrow> string \<Rightarrow> date \<Rightarrow> bool \<Rightarrow> date option \<Rightarrow> bool
    \<Rightarrow> dose_status \<Rightarrow> DoseSchedule" where
  "sample_schedule i mid t tk tkAt sk stat =
     \<lparr>id_sched = i, medicineId = mid, scheduledTime = t, taken = tk, takenAt = tkAt,
      skipped = sk, status = stat, snoozeUntil = None, notes_sched = None\<rparr>"

definition sampleMedicines :: "Medicine list" where
  "sampleMedicines =
     [\<lparr>id_med = ''1'', name = ''Metformin 500mg'', dosage = ''500mg'', frequency = 2,
       totalQuantity = 60, remainingQuantity = 8, criticalThreshold = 10,
       prescribedBy = ''Dr. Sharma'', startDate = 1704067200000, endDate = None,
       instructions = ''Take with meals'', sideEffects = Some [''Nausea'', ''Diarrhea''],
       imageUrl = Some sample_imageUrl\<rparr>,
      \<lparr>id_med = ''2'', name = ''Lisinopril 10mg'', dosage = ''10mg'', frequency = 1,
       totalQuantity = 30, remainingQuantity = 4, criticalThreshold = 5,
       prescribedBy = ''Dr. Patel'', startDate = 1704067200000, endDate = None,
       instructions = ''Take in the morning'', sideEffects = None,
       imageUrl = Some sample_imageUrl\<rparr>,
      \<lparr>id_med = ''3'', name = ''Vitamin D3 1000IU'', dosage = ''1000IU'', frequency = 1,
       totalQuantity = 100, remainingQuantity = 15, criticalThreshold = 15,
       prescribedBy = ''Dr. Reddy'', startDate = 1704067200000, endDate = None,
       instructions = ''Take with fatty meal'', sideEffects = None,
       imageUrl = Some sample_imageUrl\<rparr>]"

text \<open>The day of the samples starts at time value \<open>day0\<close>; hours are 3600000 ms.\<close>

definition sampleSchedules :: "date \<Rightarrow> DoseSchedule list" where
  "sampleSchedules day0 =
     [sample_schedule ''1'' ''1'' (day0 + 8 * 3600000) True
        (Some (day0 + 8 * 3600000 + 15 * 60000)) False Taken,
      sample_schedule ''2'' ''1'' (day0 + 20 * 3600000) False None False Pending,
      sample_schedule ''3'' ''2'' (day0 + 9 * 3600000) False None False Pending,
      sample_schedule ''4'' ''3'' (day0 + 10 * 3600000) False None False Pending]"

definition sample_state :: app_state where
  "sample_state =
     \<lparr>medicines = sampleMedicines, schedules = sampleSchedules 1705276800000,
      refillOrders = []\<rparr>"

definition sample_env :: refill_env where
  "sample_env =
     \<lparr>availability_draw = 1 / 2, order_clock = 1705300002000, refill_clock = 1705300002500\<rparr>"

section \<open>BlynkService\<close>

datatype activity_type = Dispense | Notification | Status_change

record HardwareActivity =
  id_act :: string
  type_act :: activity_type
  message :: string
  timestamp_act :: date
  success :: bool

text \<open>
  \<open>unshift\<close> puts the new entry in front; \<open>slice(0, 50)\<close> keeps the first fifty.
\<close>

definition addActivity :: "HardwareActivity \<Rightarrow> HardwareActivity list \<Rightarrow> HardwareActivity list" where
  "addActivity activity activities =
     (let activities' = activity # activities
      in if length activities' > 50 then take 50 activities' else activities')"

text \<open>The log after a sequence of insertions into the empty log of a new service.\<close>

definition activities_after :: "HardwareActivity list \<Rightarrow> HardwareActivity list" where
  "activities_after inserted = foldl (\<lambda>activities activity. addActivity activity activities) [] inserted"

definition sample_activity :: "nat \<Rightarrow> HardwareActivity" where
  "sample_activity n =
     \<lparr>id_act = show_nat (1705300000000 + n), type_act = Dispense,
      message = ''Pill dispensed for medicine 1'', timestamp_act = 1705300000000 + int n,
      success = True\<rparr>"

text \<open>
  Telemetry. A channel request either rejects (network failure, or a response that is
  not ok) or resolves to the parsed JSON body. The code reads element 0 of the body:
  of an array that is its first element or \<open>undefined\<close>, of a number it is
  \<open>undefined\<close>, and of \<open>null\<close> the read throws a \<open>TypeError\<close>.
\<close>

datatype json_body = Null_body | Number_body real | Array_body "real list"

datatype channel_reply = Rejected | Resolved json_body

datatype fault = TypeError

fun element0 :: "json_body \<Rightarrow> fault + real option" where
  "element0 Null_body = Inl TypeError"
| "element0 (Number_body v) = Inr None"
| "element0 (Array_body []) = Inr None"
| "element0 (Array_body (v # vs)) = Inr (Some v)"

text \<open>\<open>x || d\<close> on an optional number: \<open>undefined\<close> and \<open>0\<close> are falsy.\<close>

definition or_default :: "real option \<Rightarrow> real \<Rightarrow> real" where
  "or_default x d = (case x of None \<Rightarrow> d | Some v \<Rightarrow> if v = 0 then d else v)"

definition Boolean :: "real option \<Rightarrow> bool" where
  "Boolean x = (case x of None \<Rightarrow> False | Some v \<Rightarrow> v \<noteq> 0)"

text \<open>\<open>promise.catch(() => fallback)\<close>: the fallback array replaces a rejection.\<close>

definition catch_with :: "channel_reply \<Rightarrow> real list \<Rightarrow> json_body" where
  "catch_with reply fallback = (case reply of Rejected \<Rightarrow> Array_body fallback | Resolved body \<Rightarrow> body)"

record BlynkData =
  pillCount :: real
  batteryLevel :: real
  temperature :: real
  humidity :: real
  dispenserStatus :: real
  motionSensor :: bool
  lastDispensed :: real
  connected_flag :: bool

text \<open>The replies of the seven requests \<open>get/V0\<close> to \<open>get/V6\<close> of one fetch.\<close>

record replies =
  V0 :: channel_reply
  V1 :: channel_reply
  V2 :: channel_reply
  V3 :: channel_reply
  V4 :: channel_reply
  V5 :: channel_reply
  V6 :: channel_reply

text \<open>
  The draws of \<open>Math.random()\<close> that one fetch can make, each in the interval from 0 to 1:
  one per fallback handler (\<open>V4\<close> has a fixed fallback) and one per randomized field of
  the offline snapshot; and the clock that \<open>Date.now()\<close> reads.
\<close>

record draws =
  draw_V0 :: real
  draw_V1 :: real
  draw_V2 :: real
  draw_V3 :: real
  draw_V5 :: real
  draw_V6 :: real
  offline_pill :: real
  offline_battery :: real
  offline_temperature :: real
  offline_humidity :: real
  offline_motion :: real
  offline_last :: real
  clock :: real

definition offline_snapshot :: "draws \<Rightarrow> BlynkData" where
  "offline_snapshot d =
     \<lparr>pillCount = of_int (\<lfloor>offline_pill d * 50\<rfloor> + 10),
      batteryLevel = of_int (\<lfloor>offline_battery d * 40\<rfloor> + 60),
      temperature = of_int (\<lfloor>offline_temperature d * 10\<rfloor> + 20),
      humidity = of_int (\<lfloor>offline_humidity d * 20\<rfloor> + 40),
      dispenserStatus = 0,
      motionSensor = (offline_motion d > 1 / 2),
      lastDispensed = clock d - offline_last d * 3600000,
      connected_flag = False\<rparr>"

text \<open>
  \<open>fetchAllSensorData\<close> returns the service's \<open>isConnected\<close> field after the call and
  the snapshot. Every request carries its own fallback handler, so \<open>Promise.all\<close>
  receives no rejection; the \<open>catch\<close> block is entered only when reading element 0 of
  a body throws.
\<close>

definition fetchAllSensorData :: "draws \<Rightarrow> replies \<Rightarrow> bool \<times> BlynkData" where
  "fetchAllSensorData d rs =
     (let pillCount' = catch_with (V0 rs) [of_int (\<lfloor>draw_V0 d * 50\<rfloor> + 10)];
          batteryLevel' = catch_with (V1 rs) [of_int (\<lfloor>draw_V1 d * 40\<rfloor> + 60)];
          temperature' = catch_with (V2 rs) [of_int (\<lfloor>draw_V2 d * 10\<rfloor> + 20)];
          humidity' = catch_with (V3 rs) [of_int (\<lfloor>draw_V3 d * 20\<rfloor> + 40)];
          dispenserStatus' = catch_with (V4 rs) [0];
          motionSensor' = catch_with (V5 rs) [if draw_V5 d > 1 / 2 then 1 else 0];
          lastDispensed' = catch_with (V6 rs) [clock d - draw_V6 d * 3600000]
      in case (element0 pillCount', element0 batteryLevel', element0 temperature',
               element0 humidity', element0 dispenserStatus', element0 motionSensor',
               element0 lastDispensed') of
           (Inr p, Inr b, Inr t, Inr h, Inr s, Inr m, Inr l) \<Rightarrow>
             (True,
              \<lparr>pillCount = or_default p 0,
               batteryLevel = or_default b 0,
               temperature = or_default t 0,
               humidity = or_default h 0,
               dispenserStatus = or_default s 0,
               motionSensor = Boolean m,
               lastDispensed = or_default l (clock d),
               connected_flag = True\<rparr>)
         | _ \<Rightarrow> (False, offline_snapshot d))"

text \<open>A fetch in which every request is rejected, and the draws of that fetch.\<close>

definition all_rejected :: replies where
  "all_rejected =
     \<lparr>V0 = Rejected, V1 = Rejected, V2 = Rejected, V3 = Rejected, V4 = Rejected,
      V5 = Rejected, V6 = Rejected\<rparr>"

definition one_rejected :: replies where
  "one_rejected =
     \<lparr>V0 = Resolved (Array_body [28]), V1 = Rejected, V2 = Resolved (Array_body [24]),
      V3 = Resolved (Array_body [45]), V4 = Resolved (Array_body [0]),
      V5 = Resolved (Array_body [1]), V6 = Resolved (Array_body [1705299000000])\<rparr>"

definition sample_draws :: draws where
  "sample_draws =
     \<lparr>draw_V0 = 1 / 2, draw_V1 = 1 / 4, draw_V2 = 3 / 4, draw_V3 = 1 / 10, draw_V5 = 9 / 10,
      draw_V6 = 1 / 4, offline_pill = 1 / 2, offline_battery = 1 / 2,
      offline_temperature = 1 / 2, offline_humidity = 1 / 2, offline_motion = 1 / 2,
      offline_last = 1 / 2, clock = 1705300000000\<rparr>"

section \<open>VoiceService\<close>

text \<open>
  A JavaScript string is modelled by its UTF-8 bytes. The Hindi and Kannada literals of
  the source are the byte lists below, each with its line in \<open>voiceService.ts\<close>; one
  string occurs inside another as a sequence of UTF-16 code units exactly when its bytes
  occur inside the other's bytes.
\<close>

text \<open>Line 113, keyword 1 of the rule, as UTF-8 (16 bytes).\<close>

definition hi_dava_li :: string where
  "hi_dava_li =
     [CHR 0xE0, CHR 0xA4, CHR 0xA6, CHR 0xE0, CHR 0xA4, CHR 0xB5, CHR 0xE0, CHR 0xA4,
      CHR 0xBE, CHR '' '', CHR 0xE0, CHR 0xA4, CHR 0xB2, CHR 0xE0, CHR 0xA5, CHR 0x80]"

text \<open>Line 113, keyword 2 of the rule, as UTF-8 (9 bytes).\<close>

definition hi_khai :: string where
  "hi_khai =
     [CHR 0xE0, CHR 0xA4, CHR 0x96, CHR 0xE0, CHR 0xA4, CHR 0xBE, CHR 0xE0, CHR 0xA4,
      CHR 0x88]"

text \<open>Line 114, keyword 1 of the rule, as UTF-8 (22 bytes).\<close>

definition hi_agli_dava :: string where
  "hi_agli_dava =
     [CHR 0xE0, CHR 0xA4, CHR 0x85, CHR 0xE0, CHR 0xA4, CHR 0x97, CHR 0xE0, CHR 0xA4,
      CHR 0xB2, CHR 0xE0, CHR 0xA5, CHR 0x80, CHR '' '', CHR 0xE0, CHR 0xA4, CHR 0xA6,
      CHR 0xE0, CHR 0xA4, CHR 0xB5, CHR 0xE0, CHR 0xA4, CHR 0xBE]"

text \<open>Line 114, keyword 2 of the rule, as UTF-8 (19 bytes).\<close>

definition hi_kab_leni :: string where
  "hi_kab_leni =
     [CHR 0xE0, CHR 0xA4, CHR 0x95, CHR 0xE0, CHR 0xA4, CHR 0xAC, CHR '' '', CHR 0xE0,
      CHR 0xA4, CHR 0xB2, CHR 0xE0, CHR 0xA5, CHR 0x87, CHR 0xE0, CHR 0xA4, CHR 0xA8,
      CHR 0xE0, CHR 0xA5, CHR 0x80]"

text \<open>Line 115, keyword 1 of the rule, as UTF-8 (15 bytes).\<close>

definition hi_stock :: string where
  "hi_stock =
     [CHR 0xE0, CHR 0xA4, CHR 0xB8, CHR 0xE0, CHR 0xA5, CHR 0x8D, CHR 0xE0, CHR 0xA4,
      CHR 0x9F, CHR 0xE0, CHR 0xA5, CHR 0x89, CHR 0xE0, CHR 0xA4, CHR 0x95]"

text \<open>Line 115, keyword 2 of the rule, as UTF-8 (12 bytes).\<close>

definition hi_khatm :: string where
  "hi_khatm =
     [CHR 0xE0, CHR 0xA4, CHR 0x96, CHR 0xE0, CHR 0xA4, CHR 0xA4, CHR 0xE0, CHR 0xA5,
      CHR 0x8D, CHR 0xE0, CHR 0xA4, CHR 0xAE]"

text \<open>Line 118, keyword 1 of the rule, as UTF-8 (46 bytes).\<close>

definition kn_aushadhi_tegedukonde :: string where
  "kn_aushadhi_tegedukonde =
     [CHR 0xE0, CHR 0xB2, CHR 0x94, CHR 0xE0, CHR 0xB2, CHR 0xB7, CHR 0xE0, CHR 0xB2,
      CHR 0xA7, CHR 0xE0, CHR 0xB2, CHR 0xBF, CHR '' '', CHR 0xE0, CHR 0xB2, CHR 0xA4,
      CHR 0xE0, CHR 0xB3, CHR 0x86, CHR 0xE0, CHR 0xB2, CHR 0x97, CHR 0xE0, CHR 0xB3,
      CHR 0x86, CHR 0xE0, CHR 0xB2, CHR 0xA6, CHR 0xE0, CHR 0xB3, CHR 0x81, CHR 0xE0,
      CHR 0xB2, CHR 0x95, CHR 0xE0, CHR 0xB3, CHR 0x8A, CHR 0xE0, CHR 0xB2, CHR 0x82,
      CHR 0xE0, CHR 0xB2, CHR 0xA1, CHR 0xE0, CHR 0xB3, CHR 0x86]"

text \<open>Line 118, keyword 2 of the rule, as UTF-8 (24 bytes).\<close>

definition kn_seviside :: string where
  "kn_seviside =
     [CHR 0xE0, CHR 0xB2, CHR 0xB8, CHR 0xE0, CHR 0xB3, CHR 0x87, CHR 0xE0, CHR 0xB2,
      CHR 0xB5, CHR 0xE0, CHR 0xB2, CHR 0xBF, CHR 0xE0, CHR 0xB2, CHR 0xB8, CHR 0xE0,
      CHR 0xB2, CHR 0xBF, CHR 0xE0, CHR 0xB2, CHR 0xA6, CHR 0xE0, CHR 0xB3, CHR 0x86]"

text \<open>Line 119, keyword 1 of the rule, as UTF-8 (31 bytes).\<close>

definition kn_mundina_aushadhi :: string where
  "kn_mundina_aushadhi =
     [CHR 0xE0, CHR 0xB2, CHR 0xAE, CHR 0xE0, CHR 0xB3, CHR 0x81, CHR 0xE0, CHR 0xB2,
      CHR 0x82, CHR 0xE0, CHR 0xB2, CHR 0xA6, CHR 0xE0, CHR 0xB2, CHR 0xBF, CHR 0xE0,
      CHR 0xB2, CHR 0xA8, CHR '' '', CHR 0xE0, CHR 0xB2, CHR 0x94, CHR 0xE0, CHR 0xB2,
      CHR 0xB7, CHR 0xE0, CHR 0xB2, CHR 0xA7, CHR 0xE0, CHR 0xB2, CHR 0xBF]"

text \<open>Line 119, keyword 2 of the rule, as UTF-8 (15 bytes).\<close>

definition kn_yavaga :: string where
  "kn_yavaga =
     [CHR 0xE0, CHR 0xB2, CHR 0xAF, CHR 0xE0, CHR 0xB2, CHR 0xBE, CHR 0xE0, CHR 0xB2,
      CHR 0xB5, CHR 0xE0, CHR 0xB2, CHR 0xBE, CHR 0xE0, CHR 0xB2, CHR 0x97]"

text \<open>Line 120, keyword 1 of the rule, as UTF-8 (18 bytes).\<close>

definition kn_stock :: string where
  "kn_stock =
     [CHR 0xE0, CHR 0xB2, CHR 0xB8, CHR 0xE0, CHR 0xB3, CHR 0x8D, CHR 0xE0, CHR 0xB2,
      CHR 0x9F, CHR 0xE0, CHR 0xB2, CHR 0xBE, CHR 0xE0, CHR 0xB2, CHR 0x95, CHR 0xE0,
      CHR 0xB3, CHR 0x8D]"

text \<open>Line 120, keyword 2 of the rule, as UTF-8 (36 bytes).\<close>

definition kn_mugiyuttide :: string where
  "kn_mugiyuttide =
     [CHR 0xE0, CHR 0xB2, CHR 0xAE, CHR 0xE0, CHR 0xB3, CHR 0x81, CHR 0xE0, CHR 0xB2,
      CHR 0x97, CHR 0xE0, CHR 0xB2, CHR 0xBF, CHR 0xE0, CHR 0xB2, CHR 0xAF, CHR 0xE0,
      CHR 0xB3, CHR 0x81, CHR 0xE0, CHR 0xB2, CHR 0xA4, CHR 0xE0, CHR 0xB3, CHR 0x8D,
      CHR 0xE0, CHR 0xB2, CHR 0xA4, CHR 0xE0, CHR 0xB2, CHR 0xBF, CHR 0xE0, CHR 0xB2,
      CHR 0xA6, CHR 0xE0, CHR 0xB3, CHR 0x86]"

text \<open>Line 160, the next_dose template, the text before the first interpolation, as UTF-8 (59 bytes).\<close>

definition hi_next_dose_some_0 :: string where
  "hi_next_dose_some_0 =
     [CHR 0xE0, CHR 0xA4, CHR 0x86, CHR 0xE0, CHR 0xA4, CHR 0xAA, CHR 0xE0, CHR 0xA4,
      CHR 0x95, CHR 0xE0, CHR 0xA5, CHR 0x80, CHR '' '', CHR 0xE0, CHR 0xA4, CHR 0x85,
      CHR 0xE0, CHR 0xA4, CHR 0x97, CHR 0xE0, CHR 0xA4, CHR 0xB2, CHR 0xE0, CHR 0xA5,
      CHR 0x80, CHR '' '', CHR 0xE0, CHR 0xA4, CHR 0xA6, CHR 0xE0, CHR 0xA4, CHR 0xB5,
      CHR 0xE0, CHR 0xA4, CHR 0xBE, CHR 0xE0, CHR 0xA4, CHR 0x87, CHR 0xE0, CHR 0xA4,
      CHR 0xAF, CHR 0xE0, CHR 0xA4, CHR 0xBE, CHR 0xE0, CHR 0xA4, CHR 0x81, CHR '' '',
      CHR 0xE0, CHR 0xA4, CHR 0xB9, CHR 0xE0, CHR 0xA5, CHR 0x88, CHR 0xE0, CHR 0xA4,
      CHR 0x82, CHR '':'', CHR '' '']"

text \<open>Line 161, the next_dose sentence without pending medicines, as UTF-8 (75 bytes).\<close>

definition hi_next_dose_none :: string where
  "hi_next_dose_none =
     [CHR 0xE0, CHR 0xA4, CHR 0x86, CHR 0xE0, CHR 0xA4, CHR 0x9C, CHR '' '', CHR 0xE0,
      CHR 0xA4, CHR 0x86, CHR 0xE0, CHR 0xA4, CHR 0xAA, CHR 0xE0, CHR 0xA4, CHR 0x95,
      CHR 0xE0, CHR 0xA5, CHR 0x80, CHR '' '', CHR 0xE0, CHR 0xA4, CHR 0x95, CHR 0xE0,
      CHR 0xA5, CHR 0x8B, CHR 0xE0, CHR 0xA4, CHR 0x88, CHR '' '', CHR 0xE0, CHR 0xA4,
      CHR 0xA6, CHR 0xE0, CHR 0xA4, CHR 0xB5, CHR 0xE0, CHR 0xA4, CHR 0xBE, CHR '' '',
      CHR 0xE0, CHR 0xA4, CHR 0xAC, CHR 0xE0, CHR 0xA4, CHR 0xBE, CHR 0xE0, CHR 0xA4,
      CHR 0x95, CHR 0xE0, CHR 0xA5, CHR 0x80, CHR '' '', CHR 0xE0, CHR 0xA4, CHR 0xA8,
      CHR 0xE0, CHR 0xA4, CHR 0xB9, CHR 0xE0, CHR 0xA5, CHR 0x80, CHR 0xE0, CHR 0xA4,
      CHR 0x82, CHR '' '', CHR 0xE0, CHR 0xA4, CHR 0xB9, CHR 0xE0, CHR 0xA5, CHR 0x88,
      CHR 0xE0, CHR 0xA5, CHR 0xA4]"

text \<open>Line 163, the check_stock template, the text before the first interpolation, as UTF-8 (64 bytes).\<close>

definition hi_check_stock_some_0 :: string where
  "hi_check_stock_some_0 =
     [CHR 0xE0, CHR 0xA4, CHR 0xAF, CHR 0xE0, CHR 0xA5, CHR 0x87, CHR '' '', CHR 0xE0,
      CHR 0xA4, CHR 0xA6, CHR 0xE0, CHR 0xA4, CHR 0xB5, CHR 0xE0, CHR 0xA4, CHR 0xBE,
      CHR 0xE0, CHR 0xA4, CHR 0x87, CHR 0xE0, CHR 0xA4, CHR 0xAF, CHR 0xE0, CHR 0xA4,
      CHR 0xBE, CHR 0xE0, CHR 0xA4, CHR 0x81, CHR '' '', CHR 0xE0, CHR 0xA4, CHR 0x95,
      CHR 0xE0, CHR 0xA4, CHR 0xAE, CHR '' '', CHR 0xE0, CHR 0xA4, CHR 0xB9, CHR 0xE0,
      CHR 0xA5, CHR 0x8B, CHR '' '', CHR 0xE0, CHR 0xA4, CHR 0xB0, CHR 0xE0, CHR 0xA4,
      CHR 0xB9, CHR 0xE0, CHR 0xA5, CHR 0x80, CHR '' '', CHR 0xE0, CHR 0xA4, CHR 0xB9,
      CHR 0xE0, CHR 0xA5, CHR 0x88, CHR 0xE0, CHR 0xA4, CHR 0x82, CHR '':'', CHR '' '']"

text \<open>Line 163, the check_stock template, the text after the first interpolation, as UTF-8 (111 bytes).\<close>

definition hi_check_stock_some_1 :: string where
  "hi_check_stock_some_1 =
     [CHR 0xE0, CHR 0xA5, CHR 0xA4, CHR '' '', CHR 0xE0, CHR 0xA4, CHR 0xAE, CHR 0xE0,
      CHR 0xA5, CHR 0x88, CHR 0xE0, CHR 0xA4, CHR 0x82, CHR '' '', CHR 0xE0, CHR 0xA4,
      CHR 0xB0, CHR 0xE0, CHR 0xA4, CHR 0xBF, CHR 0xE0, CHR 0xA4, CHR 0xAB, CHR 0xE0,
      CHR 0xA4, CHR 0xBF, CHR 0xE0, CHR 0xA4, CHR 0xB2, CHR '' '', CHR 0xE0, CHR 0xA4,
      CHR 0x91, CHR 0xE0, CHR 0xA4, CHR 0xB0, CHR 0xE0, CHR 0xA5, CHR 0x8D, CHR 0xE0,
      CHR 0xA4, CHR 0xA1, CHR 0xE0, CHR 0xA4, CHR 0xB0, CHR '' '', CHR 0xE0, CHR 0xA4,
      CHR 0x95, CHR 0xE0, CHR 0xA4, CHR 0xB0, CHR 0xE0, CHR 0xA4, CHR 0xA8, CHR 0xE0,
      CHR 0xA5, CHR 0x87, CHR '' '', CHR 0xE0, CHR 0xA4, CHR 0xAE, CHR 0xE0, CHR 0xA5,
      CHR 0x87, CHR 0xE0, CHR 0xA4, CHR 0x82, CHR '' '', CHR 0xE0, CHR 0xA4, CHR 0xAE,
      CHR 0xE0, CHR 0xA4, CHR 0xA6, CHR 0xE0, CHR 0xA4, CHR 0xA6, CHR '' '', CHR 0xE0,
      CHR 0xA4, CHR 0x95, CHR 0xE0, CHR 0xA4, CHR 0xB0, CHR '' '', CHR 0xE0, CHR 0xA4,
      CHR 0xB8, CHR 0xE0, CHR 0xA4, CHR 0x95, CHR 0xE0, CHR 0xA4, CHR 0xA4, CHR 0xE0,
      CHR 0xA4, CHR 0xBE, CHR '' '', CHR 0xE0, CHR 0xA4, CHR 0xB9, CHR 0xE0, CHR 0xA5,
      CHR 0x82, CHR 0xE0, CHR 0xA4, CHR 0x81, CHR 0xE0, CHR 0xA5, CHR 0xA4]"

text \<open>Line 164, the check_stock sentence without low stock, as UTF-8 (102 bytes).\<close>

definition hi_check_stock_none :: string where
  "hi_check_stock_none =
     [CHR 0xE0, CHR 0xA4, CHR 0x86, CHR 0xE0, CHR 0xA4, CHR 0xAA, CHR 0xE0, CHR 0xA4,
      CHR 0x95, CHR 0xE0, CHR 0xA5, CHR 0x80, CHR '' '', CHR 0xE0, CHR 0xA4, CHR 0xB8,
      CHR 0xE0, CHR 0xA4, CHR 0xAD, CHR 0xE0, CHR 0xA5, CHR 0x80, CHR '' '', CHR 0xE0,
      CHR 0xA4, CHR 0xA6, CHR 0xE0, CHR 0xA4, CHR 0xB5, CHR 0xE0, CHR 0xA4, CHR 0xBE,
      CHR 0xE0, CHR 0xA4, CHR 0x87, CHR 0xE0, CHR 0xA4, CHR 0xAF, CHR 0xE0, CHR 0xA5,
      CHR 0x8B, CHR 0xE0, CHR 0xA4, CHR 0x82, CHR '' '', CHR 0xE0, CHR 0xA4, CHR 0x95,
      CHR 0xE0, CHR 0xA4, CHR 0xBE, CHR '' '', CHR 0xE0, CHR 0xA4, CHR 0xB8, CHR 0xE0,
      CHR 0xA5, CHR 0x8D, CHR 0xE0, CHR 0xA4, CHR 0x9F, CHR 0xE0, CHR 0xA5, CHR 0x89,
      CHR 0xE0, CHR 0xA4, CHR 0x95, CHR '' '', CHR 0xE0, CHR 0xA4, CHR 0xAA, CHR 0xE0,
      CHR 0xA4, CHR 0xB0, CHR 0xE0, CHR 0xA5, CHR 0x8D, CHR 0xE0, CHR 0xA4, CHR 0xAF,
      CHR 0xE0, CHR 0xA4, CHR 0xBE, CHR 0xE0, CHR 0xA4, CHR 0xAA, CHR 0xE0, CHR 0xA5,
      CHR 0x8D, CHR 0xE0, CHR 0xA4, CHR 0xA4, CHR '' '', CHR 0xE0, CHR 0xA4, CHR 0xB9,
      CHR 0xE0, CHR 0xA5, CHR 0x88, CHR 0xE0, CHR 0xA5, CHR 0xA4]"

text \<open>Line 165, the schedule_query template, the text before the first interpolation, as UTF-8 (20 bytes).\<close>

definition hi_schedule_query_0 :: string where
  "hi_schedule_query_0 =
     [CHR 0xE0, CHR 0xA4, CHR 0x86, CHR 0xE0, CHR 0xA4, CHR 0x9C, CHR '' '', CHR 0xE0,
      CHR 0xA4, CHR 0x86, CHR 0xE0, CHR 0xA4, CHR 0xAA, CHR 0xE0, CHR 0xA4, CHR 0x95,
      CHR 0xE0, CHR 0xA5, CHR 0x80, CHR '' '']"

text \<open>Line 165, the schedule_query template, the text after the first interpolation, as UTF-8 (64 bytes).\<close>

definition hi_schedule_query_1 :: string where
  "hi_schedule_query_1 =
     [CHR '' '', CHR 0xE0, CHR 0xA4, CHR 0xA6, CHR 0xE0, CHR 0xA4, CHR 0xB5, CHR 0xE0,
      CHR 0xA4, CHR 0xBE, CHR 0xE0, CHR 0xA4, CHR 0x87, CHR 0xE0, CHR 0xA4, CHR 0xAF,
      CHR 0xE0, CHR 0xA4, CHR 0xBE, CHR 0xE0, CHR 0xA4, CHR 0x81, CHR '' '', CHR 0xE0,
      CHR 0xA4, CHR 0xA8, CHR 0xE0, CHR 0xA4, CHR 0xBF, CHR 0xE0, CHR 0xA4, CHR 0xB0,
      CHR 0xE0, CHR 0xA5, CHR 0x8D, CHR 0xE0, CHR 0xA4, CHR 0xA7, CHR 0xE0, CHR 0xA4,
      CHR 0xBE, CHR 0xE0, CHR 0xA4, CHR 0xB0, CHR 0xE0, CHR 0xA4, CHR 0xBF, CHR 0xE0,
      CHR 0xA4, CHR 0xA4, CHR '' '', CHR 0xE0, CHR 0xA4, CHR 0xB9, CHR 0xE0, CHR 0xA5,
      CHR 0x88, CHR 0xE0, CHR 0xA4, CHR 0x82, CHR 0xE0, CHR 0xA5, CHR 0xA4, CHR '' '']"

text \<open>Line 165, the schedule_query template, the text after the second interpolation, as UTF-8 (16 bytes).\<close>

definition hi_schedule_query_2 :: string where
  "hi_schedule_query_2 =
     [CHR '' '', CHR 0xE0, CHR 0xA4, CHR 0xB2, CHR 0xE0, CHR 0xA5, CHR 0x80, CHR '' '',
      CHR 0xE0, CHR 0xA4, CHR 0x97, CHR 0xE0, CHR 0xA4, CHR 0x88, CHR '','', CHR '' '']"

text \<open>Line 165, the schedule_query template, the text after the third interpolation, as UTF-8 (16 bytes).\<close>

definition hi_schedule_query_3 :: string where
  "hi_schedule_query_3 =
     [CHR '' '', CHR 0xE0, CHR 0xA4, CHR 0xAC, CHR 0xE0, CHR 0xA4, CHR 0xBE, CHR 0xE0,
      CHR 0xA4, CHR 0x95, CHR 0xE0, CHR 0xA5, CHR 0x80, CHR 0xE0, CHR 0xA5, CHR 0xA4]"

text \<open>Line 166, the general_query sentence, as UTF-8 (166 bytes).\<close>

definition hi_general_query :: string where
  "hi_general_query =
     [CHR 0xE0, CHR 0xA4, CHR 0xAE, CHR 0xE0, CHR 0xA5, CHR 0x88, CHR 0xE0, CHR 0xA4,
      CHR 0x82, CHR '' '', CHR 0xE0, CHR 0xA4, CHR 0xA6, CHR 0xE0, CHR 0xA4, CHR 0xB5,
      CHR 0xE0, CHR 0xA4, CHR 0xBE, CHR '' '', CHR 0xE0, CHR 0xA4, CHR 0xB0, CHR 0xE0,
      CHR 0xA4, CHR 0xBF, CHR 0xE0, CHR 0xA4, CHR 0xAE, CHR 0xE0, CHR 0xA4, CHR 0xBE,
      CHR 0xE0, CHR 0xA4, CHR 0x87, CHR 0xE0, CHR 0xA4, CHR 0x82, CHR 0xE0, CHR 0xA4,
      CHR 0xA1, CHR 0xE0, CHR 0xA4, CHR 0xB0, CHR '','', CHR '' '', CHR 0xE0, CHR 0xA4,
      CHR 0xB8, CHR 0xE0, CHR 0xA5, CHR 0x8D, CHR 0xE0, CHR 0xA4, CHR 0x9F, CHR 0xE0,
      CHR 0xA5, CHR 0x89, CHR 0xE0, CHR 0xA4, CHR 0x95, CHR '' '', CHR 0xE0, CHR 0xA4,
      CHR 0x9A, CHR 0xE0, CHR 0xA5, CHR 0x87, CHR 0xE0, CHR 0xA4, CHR 0x95, CHR '' '',
      CHR 0xE0, CHR 0xA4, CHR 0x94, CHR 0xE0, CHR 0xA4, CHR 0xB0, CHR '' '', CHR 0xE0,
      CHR 0xA4, CHR 0xB6, CHR 0xE0, CHR 0xA5, CHR 0x87, CHR 0xE0, CHR 0xA4, CHR 0xA1,
      CHR 0xE0, CHR 0xA5, CHR 0x8D, CHR 0xE0, CHR 0xA4, CHR 0xAF, CHR 0xE0, CHR 0xA5,
      CHR 0x82, CHR 0xE0, CHR 0xA4, CHR 0xB2, CHR '' '', CHR 0xE0, CHR 0xA4, CHR 0xAE,
      CHR 0xE0, CHR 0xA5, CHR 0x87, CHR 0xE0, CHR 0xA4, CHR 0x82, CHR '' '', CHR 0xE0,
      CHR 0xA4, CHR 0x86, CHR 0xE0, CHR 0xA4, CHR 0xAA, CHR 0xE0, CHR 0xA4, CHR 0x95,
      CHR 0xE0, CHR 0xA5, CHR 0x80, CHR '' '', CHR 0xE0, CHR 0xA4, CHR 0xAE, CHR 0xE0,
      CHR 0xA4, CHR 0xA6, CHR 0xE0, CHR 0xA4, CHR 0xA6, CHR '' '', CHR 0xE0, CHR 0xA4,
      CHR 0x95, CHR 0xE0, CHR 0xA4, CHR 0xB0, CHR '' '', CHR 0xE0, CHR 0xA4, CHR 0xB8,
      CHR 0xE0, CHR 0xA4, CHR 0x95, CHR 0xE0, CHR 0xA4, CHR 0xA4, CHR 0xE0, CHR 0xA4,
      CHR 0xBE, CHR '' '', CHR 0xE0, CHR 0xA4, CHR 0xB9, CHR 0xE0, CHR 0xA5, CHR 0x82,
      CHR 0xE0, CHR 0xA4, CHR 0x81, CHR 0xE0, CHR 0xA5, CHR 0xA4]"

text \<open>Line 196, the taken template, the text before the first interpolation, as UTF-8 (42 bytes).\<close>

definition hi_taken_some_0 :: string where
  "hi_taken_some_0 =
     [CHR 0xE0, CHR 0xA4, CHR 0xB9, CHR 0xE0, CHR 0xA4, CHR 0xBE, CHR 0xE0, CHR 0xA4,
      CHR 0x81, CHR '','', CHR '' '', CHR 0xE0, CHR 0xA4, CHR 0x86, CHR 0xE0, CHR 0xA4,
      CHR 0xAA, CHR 0xE0, CHR 0xA4, CHR 0xA8, CHR 0xE0, CHR 0xA5, CHR 0x87, CHR '' '',
      CHR 0xE0, CHR 0xA4, CHR 0xB2, CHR 0xE0, CHR 0xA5, CHR 0x80, CHR '' '', CHR 0xE0,
      CHR 0xA4, CHR 0xB9, CHR 0xE0, CHR 0xA5, CHR 0x88, CHR 0xE0, CHR 0xA4, CHR 0x82,
      CHR '':'', CHR '' '']"

text \<open>Line 196, the taken template, the text after the first interpolation, as UTF-8 (3 bytes).\<close>

definition hi_taken_some_1 :: string where
  "hi_taken_some_1 =
     [CHR 0xE0, CHR 0xA5, CHR 0xA4]"

text \<open>Line 197, the sentence without taken medicines, as UTF-8 (86 bytes).\<close>

definition hi_taken_none :: string where
  "hi_taken_none =
     [CHR 0xE0, CHR 0xA4, CHR 0x86, CHR 0xE0, CHR 0xA4, CHR 0xAA, CHR 0xE0, CHR 0xA4,
      CHR 0xA8, CHR 0xE0, CHR 0xA5, CHR 0x87, CHR '' '', CHR 0xE0, CHR 0xA4, CHR 0x86,
      CHR 0xE0, CHR 0xA4, CHR 0x9C, CHR '' '', CHR 0xE0, CHR 0xA4, CHR 0x85, CHR 0xE0,
      CHR 0xA4, CHR 0xAD, CHR 0xE0, CHR 0xA5, CHR 0x80, CHR '' '', CHR 0xE0, CHR 0xA4,
      CHR 0xA4, CHR 0xE0, CHR 0xA4, CHR 0x95, CHR '' '', CHR 0xE0, CHR 0xA4, CHR 0x95,
      CHR 0xE0, CHR 0xA5, CHR 0x8B, CHR 0xE0, CHR 0xA4, CHR 0x88, CHR '' '', CHR 0xE0,
      CHR 0xA4, CHR 0xA6, CHR 0xE0, CHR 0xA4, CHR 0xB5, CHR 0xE0, CHR 0xA4, CHR 0xBE,
      CHR '' '', CHR 0xE0, CHR 0xA4, CHR 0xA8, CHR 0xE0, CHR 0xA4, CHR 0xB9, CHR 0xE0,
      CHR 0xA5, CHR 0x80, CHR 0xE0, CHR 0xA4, CHR 0x82, CHR '' '', CHR 0xE0, CHR 0xA4,
      CHR 0xB2, CHR 0xE0, CHR 0xA5, CHR 0x80, CHR '' '', CHR 0xE0, CHR 0xA4, CHR 0xB9,
      CHR 0xE0, CHR 0xA5, CHR 0x88, CHR 0xE0, CHR 0xA5, CHR 0xA4]"

text \<open>Line 199, the pending template, the text before the first interpolation, as UTF-8 (55 bytes).\<close>

definition hi_pending_some_0 :: string where
  "hi_pending_some_0 =
     [CHR '' '', CHR 0xE0, CHR 0xA4, CHR 0x86, CHR 0xE0, CHR 0xA4, CHR 0xAA, CHR 0xE0,
      CHR 0xA4, CHR 0x95, CHR 0xE0, CHR 0xA5, CHR 0x8B, CHR '' '', CHR 0xE0, CHR 0xA4,
      CHR 0x85, CHR 0xE0, CHR 0xA4, CHR 0xAD, CHR 0xE0, CHR 0xA5, CHR 0x80, CHR '' '',
      CHR 0xE0, CHR 0xA4, CHR 0xAD, CHR 0xE0, CHR 0xA5, CHR 0x80, CHR '' '', CHR 0xE0,
      CHR 0xA4, CHR 0xB2, CHR 0xE0, CHR 0xA5, CHR 0x87, CHR 0xE0, CHR 0xA4, CHR 0xA8,
      CHR 0xE0, CHR 0xA5, CHR 0x80, CHR '' '', CHR 0xE0, CHR 0xA4, CHR 0xB9, CHR 0xE0,
      CHR 0xA5, CHR 0x88, CHR 0xE0, CHR 0xA4, CHR 0x82, CHR '':'', CHR '' '']"

text \<open>Line 199, the pending template, the text after the first interpolation, as UTF-8 (3 bytes).\<close>

definition hi_pending_some_1 :: string where
  "hi_pending_some_1 =
     [CHR 0xE0, CHR 0xA5, CHR 0xA4]"

text \<open>Line 200, the sentence without pending medicines, as UTF-8 (114 bytes).\<close>

definition hi_pending_none :: string where
  "hi_pending_none =
     [CHR '' '', CHR 0xE0, CHR 0xA4, CHR 0x86, CHR 0xE0, CHR 0xA4, CHR 0xAA, CHR 0xE0,
      CHR 0xA4, CHR 0xA8, CHR 0xE0, CHR 0xA5, CHR 0x87, CHR '' '', CHR 0xE0, CHR 0xA4,
      CHR 0x86, CHR 0xE0, CHR 0xA4, CHR 0x9C, CHR '' '', CHR 0xE0, CHR 0xA4, CHR 0x95,
      CHR 0xE0, CHR 0xA5, CHR 0x80, CHR '' '', CHR 0xE0, CHR 0xA4, CHR 0xB8, CHR 0xE0,
      CHR 0xA4, CHR 0xAD, CHR 0xE0, CHR 0xA5, CHR 0x80, CHR '' '', CHR 0xE0, CHR 0xA4,
      CHR 0xA8, CHR 0xE0, CHR 0xA4, CHR 0xBF, CHR 0xE0, CHR 0xA4, CHR 0xB0, CHR 0xE0,
      CHR 0xA5, CHR 0x8D, CHR 0xE0, CHR 0xA4, CHR 0xA7, CHR 0xE0, CHR 0xA4, CHR 0xBE,
      CHR 0xE0, CHR 0xA4, CHR 0xB0, CHR 0xE0, CHR 0xA4, CHR 0xBF, CHR 0xE0, CHR 0xA4,
      CHR 0xA4, CHR '' '', CHR 0xE0, CHR 0xA4, CHR 0xA6, CHR 0xE0, CHR 0xA4, CHR 0xB5,
      CHR 0xE0, CHR 0xA4, CHR 0xBE, CHR 0xE0, CHR 0xA4, CHR 0x87, CHR 0xE0, CHR 0xA4,
      CHR 0xAF, CHR 0xE0, CHR 0xA4, CHR 0xBE, CHR 0xE0, CHR 0xA4, CHR 0x81, CHR '' '',
      CHR 0xE0, CHR 0xA4, CHR 0xB2, CHR 0xE0, CHR 0xA5, CHR 0x87, CHR '' '', CHR 0xE0,
      CHR 0xA4, CHR 0xB2, CHR 0xE0, CHR 0xA5, CHR 0x80, CHR '' '', CHR 0xE0, CHR 0xA4,
      CHR 0xB9, CHR 0xE0, CHR 0xA5, CHR 0x88, CHR 0xE0, CHR 0xA4, CHR 0x82, CHR 0xE0,
      CHR 0xA5, CHR 0xA4]"

text \<open>Line 171, the next_dose template, the text before the first interpolation, as UTF-8 (58 bytes).\<close>

definition kn_next_dose_some_0 :: string where
  "kn_next_dose_some_0 =
     [CHR 0xE0, CHR 0xB2, CHR 0xA8, CHR 0xE0, CHR 0xB2, CHR 0xBF, CHR 0xE0, CHR 0xB2,
      CHR 0xAE, CHR 0xE0, CHR 0xB3, CHR 0x8D, CHR 0xE0, CHR 0xB2, CHR 0xAE, CHR '' '',
      CHR 0xE0, CHR 0xB2, CHR 0xAE, CHR 0xE0, CHR 0xB3, CHR 0x81, CHR 0xE0, CHR 0xB2,
      CHR 0x82, CHR 0xE0, CHR 0xB2, CHR 0xA6, CHR 0xE0, CHR 0xB2, CHR 0xBF, CHR 0xE0,
      CHR 0xB2, CHR 0xA8, CHR '' '', CHR 0xE0, CHR 0xB2, CHR 0x94, CHR 0xE0, CHR 0xB2,
      CHR 0xB7, CHR 0xE0, CHR 0xB2, CHR 0xA7, CHR 0xE0, CHR 0xB2, CHR 0xBF, CHR 0xE0,
      CHR 0xB2, CHR 0x97, CHR 0xE0, CHR 0xB2, CHR 0xB3, CHR 0xE0, CHR 0xB3, CHR 0x81,
      CHR '':'', CHR '' '']"

text \<open>Line 172, the next_dose sentence without pending medicines, as UTF-8 (89 bytes).\<close>

definition kn_next_dose_none :: string where
  "kn_next_dose_none =
     [CHR 0xE0, CHR 0xB2, CHR 0x87, CHR 0xE0, CHR 0xB2, CHR 0x82, CHR 0xE0, CHR 0xB2,
      CHR 0xA6, CHR 0xE0, CHR 0xB3, CHR 0x81, CHR '' '', CHR 0xE0, CHR 0xB2, CHR 0xA8,
      CHR 0xE0, CHR 0xB2, CHR 0xBF, CHR 0xE0, CHR 0xB2, CHR 0xAE, CHR 0xE0, CHR 0xB2,
      CHR 0x97, CHR 0xE0, CHR 0xB3, CHR 0x86, CHR '' '', CHR 0xE0, CHR 0xB2, CHR 0xAF,
      CHR 0xE0, CHR 0xB2, CHR 0xBE, CHR 0xE0, CHR 0xB2, CHR 0xB5, CHR 0xE0, CHR 0xB3,
      CHR 0x81, CHR 0xE0, CHR 0xB2, CHR 0xA6, CHR 0xE0, CHR 0xB3, CHR 0x87, CHR '' '',
      CHR 0xE0, CHR 0xB2, CHR 0x94, CHR 0xE0, CHR 0xB2, CHR 0xB7, CHR 0xE0, CHR 0xB2,
      CHR 0xA7, CHR 0xE0, CHR 0xB2, CHR 0xBF, CHR '' '', CHR 0xE0, CHR 0xB2, CHR 0xAC,
      CHR 0xE0, CHR 0xB2, CHR 0xBE, CHR 0xE0, CHR 0xB2, CHR 0x95, CHR 0xE0, CHR 0xB2,
      CHR 0xBF, CHR '' '', CHR 0xE0, CHR 0xB2, CHR 0x87, CHR 0xE0, CHR 0xB2, CHR 0xB2,
      CHR 0xE0, CHR 0xB3, CHR 0x8D, CHR 0xE0, CHR 0xB2, CHR 0xB2, CHR 0xE0, CHR 0xA5,
      CHR 0xA4]"

text \<open>Line 174, the check_stock template, the text before the first interpolation, as UTF-8 (73 bytes).\<close>

definition kn_check_stock_some_0 :: string where
  "kn_check_stock_some_0 =
     [CHR 0xE0, CHR 0xB2, CHR 0x88, CHR '' '', CHR 0xE0, CHR 0xB2, CHR 0x94, CHR 0xE0,
      CHR 0xB2, CHR 0xB7, CHR 0xE0, CHR 0xB2, CHR 0xA7, CHR 0xE0, CHR 0xB2, CHR 0xBF,
      CHR 0xE0, CHR 0xB2, CHR 0x97, CHR 0xE0, CHR 0xB2, CHR 0xB3, CHR 0xE0, CHR 0xB3,
      CHR 0x81, CHR '' '', CHR 0xE0, CHR 0xB2, CHR 0x95, CHR 0xE0, CHR 0xB2, CHR 0xA1,
      CHR 0xE0, CHR 0xB2, CHR 0xBF, CHR 0xE0, CHR 0xB2, CHR 0xAE, CHR 0xE0, CHR 0xB3,
      CHR 0x86, CHR 0xE0, CHR 0xB2, CHR 0xAF, CHR 0xE0, CHR 0xB2, CHR 0xBE, CHR 0xE0,
      CHR 0xB2, CHR 0x97, CHR 0xE0, CHR 0xB3, CHR 0x81, CHR 0xE0, CHR 0xB2, CHR 0xA4,
      CHR 0xE0, CHR 0xB3, CHR 0x8D, CHR 0xE0, CHR 0xB2, CHR 0xA4, CHR 0xE0, CHR 0xB2,
      CHR 0xBF, CHR 0xE0, CHR 0xB2, CHR 0xB5, CHR 0xE0, CHR 0xB3, CHR 0x86, CHR '':'',
      CHR '' '']"

text \<open>Line 174, the check_stock template, the text after the first interpolation, as UTF-8 (111 bytes).\<close>

definition kn_check_stock_some_1 :: string where
  "kn_check_stock_some_1 =
     [CHR 0xE0, CHR 0xA5, CHR 0xA4, CHR '' '', CHR 0xE0, CHR 0xB2, CHR 0xA8, CHR 0xE0,
      CHR 0xB2, CHR 0xBE, CHR 0xE0, CHR 0xB2, CHR 0xA8, CHR 0xE0, CHR 0xB3, CHR 0x81,
      CHR '' '', CHR 0xE0, CHR 0xB2, CHR 0xB0, CHR 0xE0, CHR 0xB3, CHR 0x80, CHR 0xE0,
      CHR 0xB2, CHR 0xAB, CHR 0xE0, CHR 0xB2, CHR 0xBF, CHR 0xE0, CHR 0xB2, CHR 0xB2,
      CHR 0xE0, CHR 0xB3, CHR 0x8D, CHR '' '', CHR 0xE0, CHR 0xB2, CHR 0x86, CHR 0xE0,
      CHR 0xB2, CHR 0xB0, CHR 0xE0, CHR 0xB3, CHR 0x8D, CHR 0xE0, CHR 0xB2, CHR 0xA1,
      CHR 0xE0, CHR 0xB2, CHR 0xB0, CHR 0xE0, CHR 0xB3, CHR 0x8D, CHR '' '', CHR 0xE0,
      CHR 0xB2, CHR 0xAE, CHR 0xE0, CHR 0xB2, CHR 0xBE, CHR 0xE0, CHR 0xB2, CHR 0xA1,
      CHR 0xE0, CHR 0xB2, CHR 0xB2, CHR 0xE0, CHR 0xB3, CHR 0x81, CHR '' '', CHR 0xE0,
      CHR 0xB2, CHR 0xB8, CHR 0xE0, CHR 0xB2, CHR 0xB9, CHR 0xE0, CHR 0xB2, CHR 0xBE,
      CHR 0xE0, CHR 0xB2, CHR 0xAF, CHR '' '', CHR 0xE0, CHR 0xB2, CHR 0xAE, CHR 0xE0,
      CHR 0xB2, CHR 0xBE, CHR 0xE0, CHR 0xB2, CHR 0xA1, CHR 0xE0, CHR 0xB2, CHR 0xAC,
      CHR 0xE0, CHR 0xB2, CHR 0xB9, CHR 0xE0, CHR 0xB3, CHR 0x81, CHR 0xE0, CHR 0xB2,
      CHR 0xA6, CHR 0xE0, CHR 0xB3, CHR 0x81, CHR 0xE0, CHR 0xA5, CHR 0xA4]"

text \<open>Line 175, the check_stock sentence without low stock, as UTF-8 (97 bytes).\<close>

definition kn_check_stock_none :: string where
  "kn_check_stock_none =
     [CHR 0xE0, CHR 0xB2, CHR 0xA8, CHR 0xE0, CHR 0xB2, CHR 0xBF, CHR 0xE0, CHR 0xB2,
      CHR 0xAE, CHR 0xE0, CHR 0xB3, CHR 0x8D, CHR 0xE0, CHR 0xB2, CHR 0xAE, CHR '' '',
      CHR 0xE0, CHR 0xB2, CHR 0x8E, CHR 0xE0, CHR 0xB2, CHR 0xB2, CHR 0xE0, CHR 0xB3,
      CHR 0x8D, CHR 0xE0, CHR 0xB2, CHR 0xB2, CHR 0xE0, CHR 0xB2, CHR 0xBE, CHR '' '',
      CHR 0xE0, CHR 0xB2, CHR 0x94, CHR 0xE0, CHR 0xB2, CHR 0xB7, CHR 0xE0, CHR 0xB2,
      CHR 0xA7, CHR 0xE0, CHR 0xB2, CHR 0xBF, CHR 0xE0, CHR 0xB2, CHR 0x97, CHR 0xE0,
      CHR 0xB2, CHR 0xB3, CHR '' '', CHR 0xE0, CHR 0xB2, CHR 0xB8, CHR 0xE0, CHR 0xB3,
      CHR 0x8D, CHR 0xE0, CHR 0xB2, CHR 0x9F, CHR 0xE0, CHR 0xB2, CHR 0xBE, CHR 0xE0,
      CHR 0xB2, CHR 0x95, CHR 0xE0, CHR 0xB3, CHR 0x8D, CHR '' '', CHR 0xE0, CHR 0xB2,
      CHR 0xB8, CHR 0xE0, CHR 0xB2, CHR 0xBE, CHR 0xE0, CHR 0xB2, CHR 0x95, CHR 0xE0,
      CHR 0xB2, CHR 0xBE, CHR 0xE0, CHR 0xB2, CHR 0x97, CHR 0xE0, CHR 0xB2, CHR 0xBF,
      CHR 0xE0, CHR 0xB2, CHR 0xA6, CHR 0xE0, CHR 0xB3, CHR 0x86, CHR 0xE0, CHR 0xA5,
      CHR 0xA4]"

text \<open>Line 176, the schedule_query template, the text before the first interpolation, as UTF-8 (29 bytes).\<close>

definition kn_schedule_query_0 :: string where
  "kn_schedule_query_0 =
     [CHR 0xE0, CHR 0xB2, CHR 0x87, CHR 0xE0, CHR 0xB2, CHR 0x82, CHR 0xE0, CHR 0xB2,
      CHR 0xA6, CHR 0xE0, CHR 0xB3, CHR 0x81, CHR '' '', CHR 0xE0, CHR 0xB2, CHR 0xA8,
      CHR 0xE0, CHR 0xB2, CHR 0xBF, CHR 0xE0, CHR 0xB2, CHR 0xAE, CHR 0xE0, CHR 0xB2,
      CHR 0x97, CHR 0xE0, CHR 0xB3, CHR 0x86, CHR '' '']"

text \<open>Line 176, the schedule_query template, the text after the first interpolation, as UTF-8 (72 bytes).\<close>

definition kn_schedule_query_1 :: string where
  "kn_schedule_query_1 =
     [CHR '' '', CHR 0xE0, CHR 0xB2, CHR 0x94, CHR 0xE0, CHR 0xB2, CHR 0xB7, CHR 0xE0,
      CHR 0xB2, CHR 0xA7, CHR 0xE0, CHR 0xB2, CHR 0xBF, CHR 0xE0, CHR 0xB2, CHR 0x97,
      CHR 0xE0, CHR 0xB2, CHR 0xB3, CHR 0xE0, CHR 0xB3, CHR 0x81, CHR '' '', CHR 0xE0,
      CHR 0xB2, CHR 0xA8, CHR 0xE0, CHR 0xB2, CHR 0xBF, CHR 0xE0, CHR 0xB2, CHR 0x97,
      CHR 0xE0, CHR 0xB2, CHR 0xA6, CHR 0xE0, CHR 0xB2, CHR 0xBF, CHR 0xE0, CHR 0xB2,
      CHR 0xAA, CHR 0xE0, CHR 0xB2, CHR 0xA1, CHR 0xE0, CHR 0xB2, CHR 0xBF, CHR 0xE0,
      CHR 0xB2, CHR 0xB8, CHR 0xE0, CHR 0xB2, CHR 0xB2, CHR 0xE0, CHR 0xB2, CHR 0xBE,
      CHR 0xE0, CHR 0xB2, CHR 0x97, CHR 0xE0, CHR 0xB2, CHR 0xBF, CHR 0xE0, CHR 0xB2,
      CHR 0xA6, CHR 0xE0, CHR 0xB3, CHR 0x86, CHR 0xE0, CHR 0xA5, CHR 0xA4, CHR '' '']"

text \<open>Line 176, the schedule_query template, the text after the second interpolation, as UTF-8 (54 bytes).\<close>

definition kn_schedule_query_2 :: string where
  "kn_schedule_query_2 =
     [CHR '' '', CHR 0xE0, CHR 0xB2, CHR 0xA4, CHR 0xE0, CHR 0xB3, CHR 0x86, CHR 0xE0,
      CHR 0xB2, CHR 0x97, CHR 0xE0, CHR 0xB3, CHR 0x86, CHR 0xE0, CHR 0xB2, CHR 0xA6,
      CHR 0xE0, CHR 0xB3, CHR 0x81, CHR 0xE0, CHR 0xB2, CHR 0x95, CHR 0xE0, CHR 0xB3,
      CHR 0x8A, CHR 0xE0, CHR 0xB2, CHR 0x82, CHR 0xE0, CHR 0xB2, CHR 0xA1, CHR 0xE0,
      CHR 0xB2, CHR 0xBF, CHR 0xE0, CHR 0xB2, CHR 0xA6, CHR 0xE0, CHR 0xB3, CHR 0x8D,
      CHR 0xE0, CHR 0xB2, CHR 0xA6, CHR 0xE0, CHR 0xB3, CHR 0x80, CHR 0xE0, CHR 0xB2,
      CHR 0xB0, CHR 0xE0, CHR 0xB2, CHR 0xBF, CHR '','', CHR '' '']"

text \<open>Line 176, the schedule_query template, the text after the third interpolation, as UTF-8 (26 bytes).\<close>

definition kn_schedule_query_3 :: string where
  "kn_schedule_query_3 =
     [CHR '' '', CHR 0xE0, CHR 0xB2, CHR 0xAC, CHR 0xE0, CHR 0xB2, CHR 0xBE, CHR 0xE0,
      CHR 0xB2, CHR 0x95, CHR 0xE0, CHR 0xB2, CHR 0xBF, CHR '' '', CHR 0xE0, CHR 0xB2,
      CHR 0x87, CHR 0xE0, CHR 0xB2, CHR 0xA6, CHR 0xE0, CHR 0xB3, CHR 0x86, CHR 0xE0,
      CHR 0xA5, CHR 0xA4]"

text \<open>Line 177, the general_query sentence, as UTF-8 (199 bytes).\<close>

definition kn_general_query :: string where
  "kn_general_query =
     [CHR 0xE0, CHR 0xB2, CHR 0xA8, CHR 0xE0, CHR 0xB2, CHR 0xBE, CHR 0xE0, CHR 0xB2,
      CHR 0xA8, CHR 0xE0, CHR 0xB3, CHR 0x81, CHR '' '', CHR 0xE0, CHR 0xB2, CHR 0x94,
      CHR 0xE0, CHR 0xB2, CHR 0xB7, CHR 0xE0, CHR 0xB2, CHR 0xA7, CHR 0xE0, CHR 0xB2,
      CHR 0xBF, CHR '' '', CHR 0xE0, CHR 0xB2, CHR 0xB0, CHR 0xE0, CHR 0xB2, CHR 0xBF,
      CHR 0xE0, CHR 0xB2, CHR 0xAE, CHR 0xE0, CHR 0xB3, CHR 0x88, CHR 0xE0, CHR 0xB2,
      CHR 0x82, CHR 0xE0, CHR 0xB2, CHR 0xA1, CHR 0xE0, CHR 0xB2, CHR 0xB0, CHR 0xE0,
      CHR 0xB3, CHR 0x8D, CHR '','', CHR '' '', CHR 0xE0, CHR 0xB2, CHR 0xB8, CHR 0xE0,
      CHR 0xB3, CHR 0x8D, CHR 0xE0, CHR 0xB2, CHR 0x9F, CHR 0xE0, CHR 0xB2, CHR 0xBE,
      CHR 0xE0, CHR 0xB2, CHR 0x95, CHR 0xE0, CHR 0xB3, CHR 0x8D, CHR '' '', CHR 0xE0,
      CHR 0xB2, CHR 0x9A, CHR 0xE0, CHR 0xB3, CHR 0x86, CHR 0xE0, CHR 0xB2, CHR 0x95,
      CHR 0xE0, CHR 0xB3, CHR 0x8D, CHR '' '', CHR 0xE0, CHR 0xB2, CHR 0xAE, CHR 0xE0,
      CHR 0xB2, CHR 0xA4, CHR 0xE0, CHR 0xB3, CHR 0x8D, CHR 0xE0, CHR 0xB2, CHR 0xA4,
      CHR 0xE0, CHR 0xB3, CHR 0x81, CHR '' '', CHR 0xE0, CHR 0xB2, CHR 0xB6, CHR 0xE0,
      CHR 0xB3, CHR 0x86, CHR 0xE0, CHR 0xB2, CHR 0xA1, CHR 0xE0, CHR 0xB3, CHR 0x8D,
      CHR 0xE0, CHR 0xB2, CHR 0xAF, CHR 0xE0, CHR 0xB3, CHR 0x82, CHR 0xE0, CHR 0xB2,
      CHR 0xB2, CHR 0xE0, CHR 0xB3, CHR 0x8D, CHR 0xE2, CHR 0x80, CHR 0x8C, CHR 0xE0,
      CHR 0xB2, CHR 0xA8, CHR 0xE0, CHR 0xB2, CHR 0xB2, CHR 0xE0, CHR 0xB3, CHR 0x8D,
      CHR 0xE0, CHR 0xB2, CHR 0xB2, CHR 0xE0, CHR 0xB2, CHR 0xBF, CHR '' '', CHR 0xE0,
      CHR 0xB2, CHR 0xA8, CHR 0xE0, CHR 0xB2, CHR 0xBF, CHR 0xE0, CHR 0xB2, CHR 0xAE,
      CHR 0xE0, CHR 0xB2, CHR 0x97, CHR 0xE0, CHR 0xB3, CHR 0x86, CHR '' '', CHR 0xE0,
      CHR 0xB2, CHR 0xB8, CHR 0xE0, CHR 0xB2, CHR 0xB9, CHR 0xE0, CHR 0xB2, CHR 0xBE,
      CHR 0xE0, CHR 0xB2, CHR 0xAF, CHR '' '', CHR 0xE0, CHR 0xB2, CHR 0xAE, CHR 0xE0,
      CHR 0xB2, CHR 0xBE, CHR 0xE0, CHR 0xB2, CHR 0xA1, CHR 0xE0, CHR 0xB2, CHR 0xAC,
      CHR 0xE0, CHR 0xB2, CHR 0xB9, CHR 0xE0, CHR 0xB3, CHR 0x81, CHR 0xE0, CHR 0xB2,
      CHR 0xA6, CHR 0xE0, CHR 0xB3, CHR 0x81, CHR 0xE0, CHR 0xA5, CHR 0xA4]"

text \<open>Line 204, the taken template, the text before the first interpolation, as UTF-8 (80 bytes).\<close>

definition kn_taken_some_0 :: string where
  "kn_taken_some_0 =
     [CHR 0xE0, CHR 0xB2, CHR 0xB9, CHR 0xE0, CHR 0xB3, CHR 0x8C, CHR 0xE0, CHR 0xB2,
      CHR 0xA6, CHR 0xE0, CHR 0xB3, CHR 0x81, CHR '','', CHR '' '', CHR 0xE0, CHR 0xB2,
      CHR 0xA8, CHR 0xE0, CHR 0xB3, CHR 0x80, CHR 0xE0, CHR 0xB2, CHR 0xB5, CHR 0xE0,
      CHR 0xB3, CHR 0x81, CHR '' '', CHR 0xE0, CHR 0xB2, CHR 0xA4, CHR 0xE0, CHR 0xB3,
      CHR 0x86, CHR 0xE0, CHR 0xB2, CHR 0x97, CHR 0xE0, CHR 0xB3, CHR 0x86, CHR 0xE0,
      CHR 0xB2, CHR 0xA6, CHR 0xE0, CHR 0xB3, CHR 0x81, CHR 0xE0, CHR 0xB2, CHR 0x95,
      CHR 0xE0, CHR 0xB3, CHR 0x8A, CHR 0xE0, CHR 0xB2, CHR 0x82, CHR 0xE0, CHR 0xB2,
      CHR 0xA1, CHR 0xE0, CHR 0xB2, CHR 0xBF, CHR 0xE0, CHR 0xB2, CHR 0xA6, CHR 0xE0,
      CHR 0xB3, CHR 0x8D, CHR 0xE0, CHR 0xB2, CHR 0xA6, CHR 0xE0, CHR 0xB3, CHR 0x80,
      CHR 0xE0, CHR 0xB2, CHR 0xB0, CHR 0xE0, CHR 0xB2, CHR 0xBF, CHR '':'', CHR '' '']"

text \<open>Line 204, the taken template, the text after the first interpolation, as UTF-8 (3 bytes).\<close>

definition kn_taken_some_1 :: string where
  "kn_taken_some_1 =
     [CHR 0xE0, CHR 0xA5, CHR 0xA4]"

text \<open>Line 205, the sentence without taken medicines, as UTF-8 (119 bytes).\<close>

definition kn_taken_none :: string where
  "kn_taken_none =
     [CHR 0xE0, CHR 0xB2, CHR 0xA8, CHR 0xE0, CHR 0xB3, CHR 0x80, CHR 0xE0, CHR 0xB2,
      CHR 0xB5, CHR 0xE0, CHR 0xB3, CHR 0x81, CHR '' '', CHR 0xE0, CHR 0xB2, CHR 0x87,
      CHR 0xE0, CHR 0xB2, CHR 0x82, CHR 0xE0, CHR 0xB2, CHR 0xA6, CHR 0xE0, CHR 0xB3,
      CHR 0x81, CHR '' '', CHR 0xE0, CHR 0xB2, CHR 0x87, CHR 0xE0, CHR 0xB2, CHR 0xA8,
      CHR 0xE0, CHR 0xB3, CHR 0x8D, CHR 0xE0, CHR 0xB2, CHR 0xA8, CHR 0xE0, CHR 0xB3,
      CHR 0x82, CHR '' '', CHR 0xE0, CHR 0xB2, CHR 0xAF, CHR 0xE0, CHR 0xB2, CHR 0xBE,
      CHR 0xE0, CHR 0xB2, CHR 0xB5, CHR 0xE0, CHR 0xB3, CHR 0x81, CHR 0xE0, CHR 0xB2,
      CHR 0xA6, CHR 0xE0, CHR 0xB3, CHR 0x87, CHR '' '', CHR 0xE0, CHR 0xB2, CHR 0x94,
      CHR 0xE0, CHR 0xB2, CHR 0xB7, CHR 0xE0, CHR 0xB2, CHR 0xA7, CHR 0xE0, CHR 0xB2,
      CHR 0xBF, CHR '' '', CHR 0xE0, CHR 0xB2, CHR 0xA4, CHR 0xE0, CHR 0xB3, CHR 0x86,
      CHR 0xE0, CHR 0xB2, CHR 0x97, CHR 0xE0, CHR 0xB3, CHR 0x86, CHR 0xE0, CHR 0xB2,
      CHR 0xA6, CHR 0xE0, CHR 0xB3, CHR 0x81, CHR 0xE0, CHR 0xB2, CHR 0x95, CHR 0xE0,
      CHR 0xB3, CHR 0x8A, CHR 0xE0, CHR 0xB2, CHR 0x82, CHR 0xE0, CHR 0xB2, CHR 0xA1,
      CHR 0xE0, CHR 0xB2, CHR 0xBF, CHR 0xE0, CHR 0xB2, CHR 0xB2, CHR 0xE0, CHR 0xB3,
      CHR 0x8D, CHR 0xE0, CHR 0xB2, CHR 0xB2, CHR 0xE0, CHR 0xA5, CHR 0xA4]"

text \<open>Line 207, the pending template, the text before the first interpolation, as UTF-8 (77 bytes).\<close>

definition kn_pending_some_0 :: string where
  "kn_pending_some_0 =
     [CHR '' '', CHR 0xE0, CHR 0xB2, CHR 0xA8, CHR 0xE0, CHR 0xB3, CHR 0x80, CHR 0xE0,
      CHR 0xB2, CHR 0xB5, CHR 0xE0, CHR 0xB3, CHR 0x81, CHR '' '', CHR 0xE0, CHR 0xB2,
      CHR 0x87, CHR 0xE0, CHR 0xB2, CHR 0xA8, CHR 0xE0, CHR 0xB3, CHR 0x8D, CHR 0xE0,
      CHR 0xB2, CHR 0xA8, CHR 0xE0, CHR 0xB3, CHR 0x82, CHR '' '', CHR 0xE0, CHR 0xB2,
      CHR 0xA4, CHR 0xE0, CHR 0xB3, CHR 0x86, CHR 0xE0, CHR 0xB2, CHR 0x97, CHR 0xE0,
      CHR 0xB3, CHR 0x86, CHR 0xE0, CHR 0xB2, CHR 0xA6, CHR 0xE0, CHR 0xB3, CHR 0x81,
      CHR 0xE0, CHR 0xB2, CHR 0x95, CHR 0xE0, CHR 0xB3, CHR 0x8A, CHR 0xE0, CHR 0xB2,
      CHR 0xB3, CHR 0xE0, CHR 0xB3, CHR 0x8D, CHR 0xE0, CHR 0xB2, CHR 0xB3, CHR 0xE0,
      CHR 0xB2, CHR 0xAC, CHR 0xE0, CHR 0xB3, CHR 0x87, CHR 0xE0, CHR 0xB2, CHR 0x95,
      CHR 0xE0, CHR 0xB3, CHR 0x81, CHR '':'', CHR '' '']"

text \<open>Line 207, the pending template, the text after the first interpolation, as UTF-8 (3 bytes).\<close>

definition kn_pending_some_1 :: string where
  "kn_pending_some_1 =
     [CHR 0xE0, CHR 0xA5, CHR 0xA4]"

text \<open>Line 208, the sentence without pending medicines, as UTF-8 (150 bytes).\<close>

definition kn_pending_none :: string where
  "kn_pending_none =
     [CHR '' '', CHR 0xE0, CHR 0xB2, CHR 0xA8, CHR 0xE0, CHR 0xB3, CHR 0x80, CHR 0xE0,
      CHR 0xB2, CHR 0xB5, CHR 0xE0, CHR 0xB3, CHR 0x81, CHR '' '', CHR 0xE0, CHR 0xB2,
      CHR 0x87, CHR 0xE0, CHR 0xB2, CHR 0x82, CHR 0xE0, CHR 0xB2, CHR 0xA6, CHR 0xE0,
      CHR 0xB2, CHR 0xBF, CHR 0xE0, CHR 0xB2, CHR 0xA8, CHR '' '', CHR 0xE0, CHR 0xB2,
      CHR 0x8E, CHR 0xE0, CHR 0xB2, CHR 0xB2, CHR 0xE0, CHR 0xB3, CHR 0x8D, CHR 0xE0,
      CHR 0xB2, CHR 0xB2, CHR 0xE0, CHR 0xB2, CHR 0xBE, CHR '' '', CHR 0xE0, CHR 0xB2,
      CHR 0xA8, CHR 0xE0, CHR 0xB2, CHR 0xBF, CHR 0xE0, CHR 0xB2, CHR 0x97, CHR 0xE0,
      CHR 0xB2, CHR 0xA6, CHR 0xE0, CHR 0xB2, CHR 0xBF, CHR 0xE0, CHR 0xB2, CHR 0xA4,
      CHR '' '', CHR 0xE0, CHR 0xB2, CHR 0x94, CHR 0xE0, CHR 0xB2, CHR 0xB7, CHR 0xE0,
      CHR 0xB2, CHR 0xA7, CHR 0xE0, CHR 0xB2, CHR 0xBF, CHR 0xE0, CHR 0xB2, CHR 0x97,
      CHR 0xE0, CHR 0xB2, CHR 0xB3, CHR 0xE0, CHR 0xB2, CHR 0xA8, CHR 0xE0, CHR 0xB3,
      CHR 0x8D, CHR 0xE0, CHR 0xB2, CHR 0xA8, CHR 0xE0, CHR 0xB3, CHR 0x81, CHR '' '',
      CHR 0xE0, CHR 0xB2, CHR 0xA4, CHR 0xE0, CHR 0xB3, CHR 0x86, CHR 0xE0, CHR 0xB2,
      CHR 0x97, CHR 0xE0, CHR 0xB3, CHR 0x86, CHR 0xE0, CHR 0xB2, CHR 0xA6, CHR 0xE0,
      CHR 0xB3, CHR 0x81, CHR 0xE0, CHR 0xB2, CHR 0x95, CHR 0xE0, CHR 0xB3, CHR 0x8A,
      CHR 0xE0, CHR 0xB2, CHR 0x82, CHR 0xE0, CHR 0xB2, CHR 0xA1, CHR 0xE0, CHR 0xB2,
      CHR 0xBF, CHR 0xE0, CHR 0xB2, CHR 0xA6, CHR 0xE0, CHR 0xB3, CHR 0x8D, CHR 0xE0,
      CHR 0xB2, CHR 0xA6, CHR 0xE0, CHR 0xB3, CHR 0x80, CHR 0xE0, CHR 0xB2, CHR 0xB0,
      CHR 0xE0, CHR 0xB2, CHR 0xBF, CHR 0xE0, CHR 0xA5, CHR 0xA4]"


datatype language = En | Hi | Kn

record VoiceService =
  currentLanguage :: language
  medicines_vs :: "Medicine list"
  schedules_vs :: "DoseSchedule list"

record VoiceQuery =
  id_vq :: string
  query :: string
  language_vq :: language
  intent :: string
  response :: string
  timestamp_vq :: date

text \<open>
  \<open>toLowerCase\<close> on text whose cased letters are ASCII: the letters A to Z are folded
  and every other byte stays (the Devanagari and Kannada scripts have no case). Cased
  letters beyond ASCII, which the method folds too, are outside this model.
\<close>

definition toLowerCase :: "string \<Rightarrow> string" where
  "toLowerCase s =
     map (\<lambda>c. case map_of (zip ''ABCDEFGHIJKLMNOPQRSTUVWXYZ'' ''abcdefghijklmnopqrstuvwxyz'') c of
                 None \<Rightarrow> c
               | Some l \<Rightarrow> l) s"

fun startsWith :: "string \<Rightarrow> string \<Rightarrow> bool" where
  "startsWith s [] = True"
| "startsWith [] (p # ps) = False"
| "startsWith (c # cs) (p # ps) = (c = p \<and> startsWith cs ps)"

fun includes_str :: "string \<Rightarrow> string \<Rightarrow> bool" where
  "includes_str [] pat = (pat = [])"
| "includes_str (c # cs) pat = (startsWith (c # cs) pat \<or> includes_str cs pat)"

definition identifyIntent :: "string \<Rightarrow> string" where
  "identifyIntent q =
     (let lowerQuery = toLowerCase q in
      if includes_str lowerQuery ''did i take'' \<or> includes_str lowerQuery ''taken''
         \<or> includes_str lowerQuery ''have i taken'' then ''check_intake''
      else if includes_str lowerQuery ''next'' \<and> includes_str lowerQuery ''medicine'' then ''next_dose''
      else if includes_str lowerQuery ''stock'' \<or> includes_str lowerQuery ''running low''
         \<or> includes_str lowerQuery ''refill'' then ''check_stock''
      else if includes_str lowerQuery ''schedule'' \<or> includes_str lowerQuery ''when'' then ''schedule_query''
      else if includes_str lowerQuery hi_dava_li \<or> includes_str lowerQuery hi_khai then ''check_intake''
      else if includes_str lowerQuery hi_agli_dava \<or> includes_str lowerQuery hi_kab_leni then ''next_dose''
      else if includes_str lowerQuery hi_stock \<or> includes_str lowerQuery hi_khatm then ''check_stock''
      else if includes_str lowerQuery kn_aushadhi_tegedukonde \<or> includes_str lowerQuery kn_seviside
        then ''check_intake''
      else if includes_str lowerQuery kn_mundina_aushadhi \<or> includes_str lowerQuery kn_yavaga
        then ''next_dose''
      else if includes_str lowerQuery kn_stock \<or> includes_str lowerQuery kn_mugiyuttide then ''check_stock''
      else ''general_query'')"

text \<open>\<open>Array.prototype.join\<close> on strings.\<close>

fun join :: "string list \<Rightarrow> string \<Rightarrow> string" where
  "join [] sep = []"
| "join [x] sep = x"
| "join (x # y # ys) sep = x @ sep @ join (y # ys) sep"

definition generateIntakeResponse :: "string list \<Rightarrow> string list \<Rightarrow> language \<Rightarrow> string" where
  \<open>generateIntakeResponse takenMedicines pendingMedicines lang =
     (case lang of
        En \<Rightarrow>
          (if length takenMedicines > 0
           then ''Yes, you have taken: '' @ join takenMedicines '', '' @ ''.''
           else ''You haven't taken any medicines yet today.'')
          @ (if length pendingMedicines > 0
             then '' You still need to take: '' @ join pendingMedicines '', '' @ ''.''
             else '' You have taken all your scheduled medicines for today.'')
      | Hi \<Rightarrow>
          (if length takenMedicines > 0
           then hi_taken_some_0 @ join takenMedicines '', '' @ hi_taken_some_1
           else hi_taken_none)
          @ (if length pendingMedicines > 0
             then hi_pending_some_0 @ join pendingMedicines '', '' @ hi_pending_some_1
             else hi_pending_none)
      | Kn \<Rightarrow>
          (if length takenMedicines > 0
           then kn_taken_some_0 @ join takenMedicines '', '' @ kn_taken_some_1
           else kn_taken_none)
          @ (if length pendingMedicines > 0
             then kn_pending_some_0 @ join pendingMedicines '', '' @ kn_pending_some_1
             else kn_pending_none))\<close>

text \<open>
  \<open>toDateString()\<close> names the local calendar day of a time value; two time values give
  the same text exactly when they fall on the same local day. The day is numbered here,
  with the offset of local time from UTC in milliseconds.
\<close>

definition toDateString :: "int \<Rightarrow> date \<Rightarrow> int" where
  "toDateString utcOffset t = (t + utcOffset) div 86400000"

text \<open>
  \<open>.map(s => medicines.find(m => m.id === s.medicineId)?.name).filter(Boolean)\<close>: the
  names of the medicines the schedules refer to, without the schedules whose medicine is
  not found and without empty names.
\<close>

definition medicineNames :: "Medicine list \<Rightarrow> DoseSchedule list \<Rightarrow> string list" where
  "medicineNames meds ss =
     map the
       (filter (\<lambda>n. n \<noteq> None \<and> n \<noteq> Some [])
          (map (\<lambda>s. map_option name (find (\<lambda>m. id_med m = medicineId s) meds)) ss))"

text \<open>The table of responses of one language, keyed by intent.\<close>

definition responses :: "language \<Rightarrow> nat \<Rightarrow> string list \<Rightarrow> string list \<Rightarrow> string list
    \<Rightarrow> (string \<times> string) list" where
  \<open>responses lang scheduled takenMedicines pendingMedicines lowStockMedicines =
     (case lang of
        En \<Rightarrow>
          [(''check_intake'', generateIntakeResponse takenMedicines pendingMedicines En),
           (''next_dose'',
              if length pendingMedicines > 0
              then ''Your next medicines to take are: '' @ join pendingMedicines '', ''
              else ''You have no pending medicines for today.''),
           (''check_stock'',
              if length lowStockMedicines > 0
              then ''These medicines are running low: '' @ join lowStockMedicines '', ''
                   @ ''. I can help you order refills.''
              else ''All your medicines have adequate stock.''),
           (''schedule_query'',
              ''You have '' @ show_nat scheduled @ '' medicines scheduled for today. ''
              @ show_nat (length takenMedicines) @ '' taken, ''
              @ show_nat (length pendingMedicines) @ '' pending.''),
           (''general_query'',
              ''I can help you with medicine reminders, stock checks, and schedules. Try asking "Have I taken my medicine?" or "What medicines are running low?"'')]
      | Hi \<Rightarrow>
          [(''check_intake'', generateIntakeResponse takenMedicines pendingMedicines Hi),
           (''next_dose'',
              if length pendingMedicines > 0
              then hi_next_dose_some_0 @ join pendingMedicines '', ''
              else hi_next_dose_none),
           (''check_stock'',
              if length lowStockMedicines > 0
              then hi_check_stock_some_0 @ join lowStockMedicines '', '' @ hi_check_stock_some_1
              else hi_check_stock_none),
           (''schedule_query'',
              hi_schedule_query_0 @ show_nat scheduled @ hi_schedule_query_1
              @ show_nat (length takenMedicines) @ hi_schedule_query_2
              @ show_nat (length pendingMedicines) @ hi_schedule_query_3),
           (''general_query'', hi_general_query)]
      | Kn \<Rightarrow>
          [(''check_intake'', generateIntakeResponse takenMedicines pendingMedicines Kn),
           (''next_dose'',
              if length pendingMedicines > 0
              then kn_next_dose_some_0 @ join pendingMedicines '', ''
              else kn_next_dose_none),
           (''check_stock'',
              if length lowStockMedicines > 0
              then kn_check_stock_some_0 @ join lowStockMedicines '', '' @ kn_check_stock_some_1
              else kn_check_stock_none),
           (''schedule_query'',
              kn_schedule_query_0 @ show_nat scheduled @ kn_schedule_query_1
              @ show_nat (length takenMedicines) @ kn_schedule_query_2
              @ show_nat (length pendingMedicines) @ kn_schedule_query_3),
           (''general_query'', kn_general_query)])\<close>

text \<open>\<open>a || b\<close> on table entries: a missing entry and the empty string are falsy.\<close>

definition or_else :: "string option \<Rightarrow> string option \<Rightarrow> string" where
  "or_else a b =
     (case a of
        Some r \<Rightarrow> if r \<noteq> [] then r else (case b of Some g \<Rightarrow> g | None \<Rightarrow> [])
      | None \<Rightarrow> (case b of Some g \<Rightarrow> g | None \<Rightarrow> []))"

definition generateResponse :: "VoiceService \<Rightarrow> int \<Rightarrow> date \<Rightarrow> string \<Rightarrow> string \<Rightarrow> string" where
  "generateResponse vs utcOffset today intnt q =
     (let todaySchedules =
            filter (\<lambda>s. toDateString utcOffset (scheduledTime s) = toDateString utcOffset today)
              (schedules_vs vs);
          takenMedicines =
            medicineNames (medicines_vs vs) (filter (\<lambda>s. status s = Taken) todaySchedules);
          pendingMedicines =
            medicineNames (medicines_vs vs) (filter (\<lambda>s. status s = Pending) todaySchedules);
          lowStockMedicines =
            map name (filter (\<lambda>m. remainingQuantity m \<le> criticalThreshold m) (medicines_vs vs));
          table = responses (currentLanguage vs) (length todaySchedules) takenMedicines
                    pendingMedicines lowStockMedicines
      in or_else (map_of table intnt) (map_of table ''general_query''))"

definition processQuery :: "VoiceService \<Rightarrow> int \<Rightarrow> date \<Rightarrow> string \<Rightarrow> VoiceQuery" where
  "processQuery vs utcOffset now q =
     (let intnt = identifyIntent q;
          resp = generateResponse vs utcOffset now intnt q
      in \<lparr>id_vq = toString now, query = q, language_vq = currentLanguage vs,
          intent = intnt, response = resp, timestamp_vq = now\<rparr>)"

text \<open>
  Today's schedules with two doses taken and one pending, over the sample medicines, for
  an English-speaking user.
\<close>

definition two_taken_one_pending :: "DoseSchedule list" where
  "two_taken_one_pending =
     [sample_schedule ''1'' ''1'' (1705276800000 + 8 * 3600000) True
        (Some (1705276800000 + 8 * 3600000 + 15 * 60000)) False Taken,
      sample_schedule ''3'' ''2'' (1705276800000 + 9 * 3600000) True
        (Some (1705276800000 + 9 * 3600000 + 5 * 60000)) False Taken,
      sample_schedule ''4'' ''3'' (1705276800000 + 10 * 3600000) False None False Pending]"

definition sample_voice :: VoiceService where
  "sample_voice =
     \<lparr>currentLanguage = En, medicines_vs = sampleMedicines,
      schedules_vs = two_taken_one_pending\<rparr>"

text \<open>A schedule already marked missed, and a run of user actions, for the examples.\<close>

definition missed_state :: app_state where
  "missed_state =
     \<lparr>medicines = sampleMedicines,
      schedules = [sample_schedule ''1'' ''1'' 1705305600000 False None True Missed],
      refillOrders = []\<rparr>"

definition sample_actions :: "action list" where
  "sample_actions =
     [MarkDoseTaken 1705300000000 sample_env ''2'',
      SnoozeDose (fixed_zone 19800000) 1705300100000 ''4'',
      MarkTakenLate 1705300200000 ''3'',
      SkipDose ''4'' (Some ''nausea''),
      MarkDoseTaken 1705300300000 sample_env ''9'']"

section \<open>Facts about the local clock\<close>

lemma clock_fields:
  fixes l :: int
  shows "(l div 86400000) * 86400000 + ((l div 3600000) mod 24) * 3600000
     + ((l div 60000) mod 60) * 60000 + ((l div 1000) mod 60) * 1000 + l mod 1000 = l"
proof -
  have a: "l div 60000 = (l div 1000) div 60" by (simp add: zdiv_zmult2_eq)
  have b: "l div 3600000 = (l div 60000) div 60" by (simp add: zdiv_zmult2_eq)
  have c: "l div 86400000 = (l div 3600000) div 24" by (simp add: zdiv_zmult2_eq)
  have 1: "l = (l div 1000) * 1000 + l mod 1000" by simp
  have 2: "l div 1000 = (l div 60000) * 60 + (l div 1000) mod 60" unfolding a by simp
  have 3: "l div 60000 = (l div 3600000) * 60 + (l div 60000) mod 60" unfolding b by simp
  have 4: "l div 3600000 = (l div 86400000) * 24 + (l div 3600000) mod 24" unfolding c by simp
  show ?thesis using 1 2 3 4 by linarith
qed

lemma shift_minutes:
  fixes l :: int
  assumes "d * 86400000 + h * 3600000 + m * 60000 + s * 1000 + ms = l"
  shows "d * 86400000 + (h * 3600000 + (m + n) * 60000 + s * 1000 + ms) = l + n * 60000"
  using assms by (simp add: algebra_simps)

text \<open>Setting the minutes to the current minutes plus \<open>n\<close> moves the local reading by \<open>n\<close> minutes.\<close>

lemma setMinutes_getMinutes:
  "setMinutes tz t (getMinutes tz t + n) = UTC tz (LocalTime tz t + n * 60000)"
proof -
  have "MakeDate (Day l) (MakeTime (HourFromTime l) (MinFromTime l + n) (SecFromTime l) (msFromTime l))
          = l + n * 60000" for l
    unfolding MakeDate_def MakeTime_def Day_def HourFromTime_def MinFromTime_def SecFromTime_def
      msFromTime_def
    by (rule shift_minutes [OF clock_fields])
  then show ?thesis by (simp add: setMinutes_def getMinutes_def Let_def)
qed

text \<open>
  Where the offset that reads the new local reading back is the offset in force at the
  invocation, the half hour on the local clock is a half hour of time.
\<close>

lemma setMinutes_same_offset:
  assumes "LocalTZA_local tz (LocalTime tz now + 30 * 60000) = LocalTZA_utc tz now"
  shows "setMinutes tz now (getMinutes tz now + 30) = now + 30 * 60 * 1000"
  using assms by (simp add: setMinutes_getMinutes UTC_def LocalTime_def)

lemma setMinutes_fixed_zone:
  "setMinutes (fixed_zone offset) now (getMinutes (fixed_zone offset) now + 30) = now + 30 * 60 * 1000"
  by (rule setMinutes_same_offset) (simp add: fixed_zone_def)

section \<open>Facts about the dose lifecycle\<close>

lemma find_None_map_id:
  "scheduleId \<notin> id_sched ` set xs \<Longrightarrow> map (\<lambda>s. if id_sched s = scheduleId then f s else s) xs = xs"
  by (induction xs) auto

lemma find_sched_None:
  "(find (\<lambda>s. id_sched s = scheduleId) xs = None) = (scheduleId \<notin> id_sched ` set xs)"
  by (auto simp: find_None_iff)

lemma updateStock_length: "length (updateStock mid meds tk) = length meds"
  by (simp add: updateStock_def)

lemma updateStock_nth:
  "j < length meds \<Longrightarrow>
     updateStock mid meds True ! j =
       (if id_med (meds ! j) = mid
        then (meds ! j)\<lparr>remainingQuantity := max 0 (remainingQuantity (meds ! j) - 1)\<rparr>
        else meds ! j)"
  by (simp add: updateStock_def)

lemma updateStock_nonneg:
  "\<forall>m\<in>set meds. 0 \<le> remainingQuantity m \<Longrightarrow>
     \<forall>m\<in>set (updateStock mid meds tk). 0 \<le> remainingQuantity m"
  by (auto simp: updateStock_def)

lemma markDoseTaken_found:
  "find (\<lambda>s. id_sched s = scheduleId) (schedules st) = Some sch \<Longrightarrow>
     schedules (markDoseTaken now env scheduleId st) =
       map (\<lambda>s. if id_sched s = scheduleId
                 then s\<lparr>taken := True, takenAt := Some now, status := Taken\<rparr> else s) (schedules st)
     \<and> medicines (markDoseTaken now env scheduleId st) = updateStock (medicineId sch) (medicines st) True"
  by (simp add: markDoseTaken_def)

lemma markDoseTaken_missing:
  "scheduleId \<notin> id_sched ` set (schedules st) \<Longrightarrow> markDoseTaken now env scheduleId st = st"
  using find_sched_None [of scheduleId "schedules st"] by (simp add: markDoseTaken_def)

lemma skipDose_missing:
  "scheduleId \<notin> id_sched ` set (schedules st) \<Longrightarrow> skipDose scheduleId reason st = st"
  by (simp add: skipDose_def find_None_map_id)

lemma snoozeDose_missing:
  "scheduleId \<notin> id_sched ` set (schedules st) \<Longrightarrow> snoozeDose tz now scheduleId st = st"
  by (simp add: snoozeDose_def find_None_map_id)

lemma markTakenLate_missing:
  "scheduleId \<notin> id_sched ` set (schedules st) \<Longrightarrow> markTakenLate now scheduleId st = st"
  using find_sched_None [of scheduleId "schedules st"]
  by (simp add: markTakenLate_def find_None_map_id)

lemma map_update_consistent:
  assumes "\<forall>s\<in>set xs. flags_consistent s"
    and "\<forall>s\<in>set xs. id_sched s = scheduleId \<longrightarrow> flags_consistent (f s)"
  shows "\<forall>s\<in>set (map (\<lambda>s. if id_sched s = scheduleId then f s else s) xs). flags_consistent s"
  using assms by auto

lemma open_flags:
  "flags_consistent s \<Longrightarrow> status s = Pending \<or> status s = Snoozed \<Longrightarrow> \<not> taken s \<and> \<not> skipped s"
  by (auto simp: flags_consistent_def)

lemma markTakenLate_schedules:
  "schedules (markTakenLate now scheduleId st) =
     map (\<lambda>s. if id_sched s = scheduleId
               then s\<lparr>taken := True, takenAt := Some now, status := Taken_late\<rparr> else s)
       (schedules st)"
  by (cases "find (\<lambda>s. id_sched s = scheduleId) (schedules st)")
    (simp_all add: markTakenLate_def Let_def)

lemma skipDose_schedules:
  "schedules (skipDose scheduleId reason st) =
     map (\<lambda>s. if id_sched s = scheduleId
               then s\<lparr>skipped := True, status := Missed, notes_sched := reason\<rparr> else s)
       (schedules st)"
  by (simp add: skipDose_def)

lemma snoozeDose_schedules:
  "schedules (snoozeDose tz now scheduleId st) =
     map (\<lambda>s. if id_sched s = scheduleId
               then s\<lparr>status := Snoozed,
                      snoozeUntil := Some (setMinutes tz now (getMinutes tz now + 30))\<rparr>
               else s)
       (schedules st)"
  by (simp add: snoozeDose_def Let_def)

lemma snoozeDose_same_offset:
  assumes "LocalTZA_local tz (LocalTime tz now + 30 * 60000) = LocalTZA_utc tz now"
  shows "length (schedules (snoozeDose tz now scheduleId st)) = length (schedules st)
   \<and> (\<forall>i<length (schedules st). id_sched (schedules st ! i) = scheduleId \<longrightarrow>
         status (schedules (snoozeDose tz now scheduleId st) ! i) = Snoozed
         \<and> snoozeUntil (schedules (snoozeDose tz now scheduleId st) ! i) = Some (now + 30 * 60 * 1000))
   \<and> medicines (snoozeDose tz now scheduleId st) = medicines st"
  by (simp add: snoozeDose_def Let_def setMinutes_same_offset [OF assms])

lemma skipDose_medicines: "medicines (skipDose scheduleId reason st) = medicines st"
  by (simp add: skipDose_def)

lemma snoozeDose_medicines: "medicines (snoozeDose tz now scheduleId st) = medicines st"
  by (simp add: snoozeDose_def Let_def)

lemma markDoseTaken_medicines:
  "medicines (markDoseTaken now env scheduleId st) =
     (case find (\<lambda>s. id_sched s = scheduleId) (schedules st) of
        None \<Rightarrow> medicines st
      | Some sch \<Rightarrow> updateStock (medicineId sch) (medicines st) True)"
  by (simp add: markDoseTaken_def split: option.splits)

lemma markTakenLate_medicines:
  "medicines (markTakenLate now scheduleId st) =
     (case find (\<lambda>s. id_sched s = scheduleId) (schedules st) of
        None \<Rightarrow> medicines st
      | Some sch \<Rightarrow> updateStock (medicineId sch) (medicines st) True)"
  by (simp add: markTakenLate_def Let_def split: option.splits)

lemma step_nonneg:
  assumes "\<forall>m\<in>set (medicines st). 0 \<le> remainingQuantity m"
  shows "\<forall>m\<in>set (medicines (step st a)). 0 \<le> remainingQuantity m"
proof (cases a)
  case (MarkDoseTaken now env scheduleId)
  then show ?thesis
    using assms updateStock_nonneg [OF assms]
    by (simp add: markDoseTaken_medicines split: option.splits)
next
  case (SkipDose scheduleId reason)
  then show ?thesis using assms by (simp add: skipDose_medicines)
next
  case (SnoozeDose tz now scheduleId)
  then show ?thesis using assms by (simp add: snoozeDose_medicines)
next
  case (MarkTakenLate now scheduleId)
  then show ?thesis
    using assms updateStock_nonneg [OF assms]
    by (simp add: markTakenLate_medicines split: option.splits)
qed

lemma run_nonneg:
  "\<forall>m\<in>set (medicines st). 0 \<le> remainingQuantity m \<Longrightarrow>
     \<forall>m\<in>set (medicines (run st acts)). 0 \<le> remainingQuantity m"
  unfolding run_def
proof (induction acts arbitrary: st)
  case Nil
  then show ?case by simp
next
  case (Cons a acts)
  from Cons.IH [OF step_nonneg [OF Cons.prems]] show ?case by simp
qed

lemma sample_find2:
  "find (\<lambda>s. id_sched s = ''2'') (schedules sample_state)
     = Some (sample_schedule ''2'' ''1'' (1705276800000 + 20 * 3600000) False None False Pending)"
  by (simp add: sample_state_def sampleSchedules_def sample_schedule_def)

lemma sample_state_consistent: "\<forall>s\<in>set (schedules sample_state). flags_consistent s"
  by (simp add: sample_state_def sampleSchedules_def sample_schedule_def flags_consistent_def)

lemma sample_state_target2:
  "\<forall>s\<in>set (schedules sample_state). id_sched s = ''2'' \<longrightarrow> status s = Pending \<or> status s = Snoozed"
  by (simp add: sample_state_def sampleSchedules_def sample_schedule_def)

lemma sample_state_nonneg: "\<forall>m\<in>set (medicines sample_state). 0 \<le> remainingQuantity m"
  by (simp add: sample_state_def sampleMedicines_def sample_medicine_def)

lemma sample_run_stock:
  "map remainingQuantity (medicines (run sample_state sample_actions)) = [7, 3, 15]"
  by (simp add: run_def sample_actions_def sample_state_def sampleMedicines_def
      sampleSchedules_def sample_medicine_def sample_schedule_def
      markDoseTaken_medicines markTakenLate_medicines updateStock_def
      markDoseTaken_def markTakenLate_def skipDose_def snoozeDose_def Let_def)

section \<open>Facts about the hardware service\<close>

lemma addActivity_take: "addActivity a entries = take 50 (a # entries)"
  by (simp add: addActivity_def Let_def)

lemma take_append_take: "take n (xs @ take n ys) = take n (xs @ ys)"
  by (simp add: min_def)

lemma foldl_addActivity:
  "foldl (\<lambda>activities activity. addActivity activity activities) entries inserted
     = take 50 (rev inserted @ entries)" if "length entries \<le> 50"
  using that
proof (induction inserted arbitrary: entries)
  case Nil
  then show ?case by simp
next
  case (Cons a inserted)
  have "foldl (\<lambda>activities activity. addActivity activity activities) (take 50 (a # entries)) inserted
          = take 50 (rev inserted @ take 50 (a # entries))"
    by (rule Cons.IH) simp
  then show ?case
    by (simp only: foldl_Cons addActivity_take take_append_take rev.simps append_assoc append_Cons append_Nil)
qed

lemma element0_catch_Inl:
  "(element0 (catch_with r fb) = Inl e) = (r = Resolved Null_body)"
proof (cases r)
  case Rejected
  then show ?thesis by (cases fb) (simp_all add: catch_with_def)
next
  case (Resolved body)
  then show ?thesis
    by (cases body rule: element0.cases; cases e) (simp_all add: catch_with_def)
qed

lemma fetch_connected_unless_null:
  assumes "\<forall>r \<in> {V0 rs, V1 rs, V2 rs, V3 rs, V4 rs, V5 rs, V6 rs}. r \<noteq> Resolved Null_body"
  shows "fst (fetchAllSensorData d rs) \<and> connected_flag (snd (fetchAllSensorData d rs))"
  using assms unfolding fetchAllSensorData_def Let_def
  by (simp add: element0_catch_Inl split: sum.splits)

section \<open>Facts about the voice responder\<close>

lemma lower_sample:
  "toLowerCase ''What medicines do I still need to take?'' = ''what medicines do i still need to take?''"
  by (simp add: toLowerCase_def)

lemma intent_sample: "identifyIntent ''What medicines do I still need to take?'' = ''general_query''"
  unfolding identifyIntent_def lower_sample Let_def
  by (simp add: hi_dava_li_def hi_khai_def hi_agli_dava_def hi_kab_leni_def hi_stock_def hi_khatm_def
      kn_aushadhi_tegedukonde_def kn_seviside_def kn_mundina_aushadhi_def kn_yavaga_def
      kn_stock_def kn_mugiyuttide_def)

lemma lower_next:
  "toLowerCase ''What is my next medicine?'' = ''what is my next medicine?''"
  by (simp add: toLowerCase_def)

lemma intent_next: "identifyIntent ''What is my next medicine?'' = ''next_dose''"
  unfolding identifyIntent_def lower_next Let_def
  by simp

lemma response_general:
  \<open>generateResponse sample_voice 0 1705300000000 ''general_query'' q
     = ''I can help you with medicine reminders, stock checks, and schedules. Try asking "Have I taken my medicine?" or "What medicines are running low?"''\<close>
  by (simp add: generateResponse_def Let_def sample_voice_def responses_def or_else_def)

lemma response_next:
  "generateResponse sample_voice 0 1705300000000 ''next_dose'' q
     = ''Your next medicines to take are: Vitamin D3 1000IU''"
  by (simp add: generateResponse_def Let_def sample_voice_def two_taken_one_pending_def
      sample_schedule_def sampleMedicines_def sample_medicine_def medicineNames_def
      toDateString_def responses_def or_else_def)

section \<open>Stock classification\<close>

text \<open>
  C3. For every medicine, the stock level is critical exactly when the remaining quantity
  is at most the threshold, low exactly when it is above the threshold and at most twice
  the threshold, and adequate exactly when it is neither.
\<close>

theorem checkStockLevel_classification:
  "(checkStockLevel m = Critical) = (remainingQuantity m \<le> criticalThreshold m)
   \<and> (checkStockLevel m = Low)
       = (criticalThreshold m < remainingQuantity m
          \<and> remainingQuantity m \<le> 2 * criticalThreshold m)
   \<and> (checkStockLevel m = Adequate)
       = (criticalThreshold m < remainingQuantity m
          \<and> 2 * criticalThreshold m < remainingQuantity m)"
  by (auto simp: checkStockLevel_def)

text \<open>
  C4. The days remaining are the floor of the remaining quantity over the frequency when
  the frequency is not zero, and 0 when it is zero; the function has no failing branch.
  In particular 8 doses at 2 a day last 4 days, and 8 doses at 0 a day give 0.
\<close>

theorem calculateDaysRemaining_floor:
  "(frequency m \<noteq> 0 \<longrightarrow>
      calculateDaysRemaining m = \<lfloor>real_of_int (remainingQuantity m) / real_of_int (frequency m)\<rfloor>
      \<and> calculateDaysRemaining m = remainingQuantity m div frequency m)
   \<and> (frequency m = 0 \<longrightarrow> calculateDaysRemaining m = 0)
   \<and> calculateDaysRemaining (sample_medicine ''1'' ''Metformin 500mg'' 2 60 8 10) = 4
   \<and> calculateDaysRemaining (sample_medicine ''1'' ''Metformin 500mg'' 0 60 8 10) = 0"
  by (simp add: calculateDaysRemaining_def sample_medicine_def floor_divide_of_int_eq)

theorem calculateDaysRemaining_floor_witness:
  "frequency (sample_medicine ''2'' ''Lisinopril 10mg'' 3 30 7 5) \<noteq> 0
   \<and> calculateDaysRemaining (sample_medicine ''2'' ''Lisinopril 10mg'' 3 30 7 5) = 2
   \<and> frequency (sample_medicine ''2'' ''Lisinopril 10mg'' 0 30 7 5) = 0
   \<and> calculateDaysRemaining (sample_medicine ''2'' ''Lisinopril 10mg'' 0 30 7 5) = 0"
  using calculateDaysRemaining_floor [of "sample_medicine ''2'' ''Lisinopril 10mg'' 3 30 7 5"]
    calculateDaysRemaining_floor [of "sample_medicine ''2'' ''Lisinopril 10mg'' 0 30 7 5"]
  by (simp add: sample_medicine_def)

section \<open>Voice intent responder\<close>

text \<open>
  C1. Today's schedules hold two taken doses and one pending dose, and the language is
  English. The query "What medicines do I still need to take?" matches no rule of
  \<open>identifyIntent\<close> (the next_dose rule needs both "next" and "medicine", and the query
  has no "next"), so its intent is general_query and its response is the fixed help
  sentence, which names no medicine. On the same state a query with both words, "What is
  my next medicine?", has the intent next_dose and a response that lists exactly the one
  pending medicine's name.
\<close>

theorem sample_query_falls_to_general_query:
  \<open>map status
     (filter (\<lambda>s. toDateString 0 (scheduledTime s) = toDateString 0 1705300000000)
        (schedules_vs sample_voice)) = [Taken, Taken, Pending]
   \<and> intent (processQuery sample_voice 0 1705300000000 ''What medicines do I still need to take?'')
       = ''general_query''
   \<and> response (processQuery sample_voice 0 1705300000000 ''What medicines do I still need to take?'')
       = ''I can help you with medicine reminders, stock checks, and schedules. Try asking "Have I taken my medicine?" or "What medicines are running low?"''
   \<and> intent (processQuery sample_voice 0 1705300000000 ''What is my next medicine?'') = ''next_dose''
   \<and> response (processQuery sample_voice 0 1705300000000 ''What is my next medicine?'')
       = ''Your next medicines to take are: Vitamin D3 1000IU''\<close>
proof -
  have today: "map status
     (filter (\<lambda>s. toDateString 0 (scheduledTime s) = toDateString 0 1705300000000)
        (schedules_vs sample_voice)) = [Taken, Taken, Pending]"
    by (simp add: sample_voice_def two_taken_one_pending_def sample_schedule_def toDateString_def)
  show ?thesis
    using today
    by (simp add: processQuery_def Let_def intent_sample intent_next response_general
        response_next)
qed

section \<open>Dose lifecycle\<close>

text \<open>
  C2. For a schedule id whose schedule, as the lookup by id finds it, is pending,
  \<open>markDoseTaken\<close> sets the status of the schedule with that id to taken, sets its
  \<open>taken\<close> flag, records the clock as \<open>takenAt\<close>, and replaces the remaining quantity
  \<open>r\<close> of the medicine the schedule refers to by \<open>max 0 (r - 1)\<close>. The operation does
  not read the status: the same holds from any status.
\<close>

theorem markDoseTaken_pending:
  assumes "find (\<lambda>s. id_sched s = scheduleId) (schedules st) = Some sch"
    and "status sch = Pending"
  shows "length (schedules (markDoseTaken now env scheduleId st)) = length (schedules st)
    \<and> (\<forall>i<length (schedules st). id_sched (schedules st ! i) = scheduleId \<longrightarrow>
          status (schedules (markDoseTaken now env scheduleId st) ! i) = Taken
          \<and> taken (schedules (markDoseTaken now env scheduleId st) ! i)
          \<and> takenAt (schedules (markDoseTaken now env scheduleId st) ! i) = Some now)
    \<and> length (medicines (markDoseTaken now env scheduleId st)) = length (medicines st)
    \<and> (\<forall>j<length (medicines st). id_med (medicines st ! j) = medicineId sch \<longrightarrow>
          remainingQuantity (medicines (markDoseTaken now env scheduleId st) ! j)
            = max 0 (remainingQuantity (medicines st ! j) - 1))"
  using markDoseTaken_found [OF assms(1), of now env]
  by (simp add: updateStock_length updateStock_nth)

theorem markDoseTaken_pending_witness:
  "find (\<lambda>s. id_sched s = ''2'') (schedules sample_state)
     = Some (sample_schedule ''2'' ''1'' (1705276800000 + 20 * 3600000) False None False Pending)
   \<and> status (schedules (markDoseTaken 1705300000000 sample_env ''2'' sample_state) ! 1) = Taken
   \<and> takenAt (schedules (markDoseTaken 1705300000000 sample_env ''2'' sample_state) ! 1)
       = Some 1705300000000
   \<and> remainingQuantity (medicines sample_state ! 0) = 8
   \<and> remainingQuantity (medicines (markDoseTaken 1705300000000 sample_env ''2'' sample_state) ! 0) = 7"
proof -
  let ?sch = "sample_schedule ''2'' ''1'' (1705276800000 + 20 * 3600000) False None False Pending"
  have st: "status ?sch = Pending" by (simp add: sample_schedule_def)
  note inst = markDoseTaken_pending [OF sample_find2 st, of 1705300000000 sample_env]
  have i: "(1::nat) < length (schedules sample_state)" "id_sched (schedules sample_state ! 1) = ''2''"
    by (simp_all add: sample_state_def sampleSchedules_def sample_schedule_def)
  have j: "(0::nat) < length (medicines sample_state)"
    "id_med (medicines sample_state ! 0) = medicineId ?sch"
    "remainingQuantity (medicines sample_state ! 0) = 8"
    by (simp_all add: sample_state_def sampleMedicines_def sample_medicine_def sample_schedule_def)
  from inst i j sample_find2 show ?thesis by simp
qed

text \<open>
  C5 (as amended). Every dose-lifecycle operation (\<open>markDoseTaken\<close>, \<open>markTakenLate\<close>,
  \<open>skipDose\<close>, \<open>snoozeDose\<close>), applied to a schedule whose status is pending or snoozed
  in a list whose flags agree with the statuses, leaves every schedule's flags in
  agreement with its status: \<open>taken\<close> holds exactly for taken and taken_late, \<open>skipped\<close>
  exactly for missed. No operation clears a flag, so from the other statuses the agreement
  can be lost (the interface offers the operations on pending schedules only).
\<close>

theorem lifecycle_keeps_flags_consistent:
  assumes cons: "\<forall>s\<in>set (schedules st). flags_consistent s"
    and target: "\<forall>s\<in>set (schedules st). id_sched s = scheduleId \<longrightarrow> status s = Pending \<or> status s = Snoozed"
  shows "(\<forall>s\<in>set (schedules (markDoseTaken now env scheduleId st)). flags_consistent s)
    \<and> (\<forall>s\<in>set (schedules (markTakenLate now scheduleId st)). flags_consistent s)
    \<and> (\<forall>s\<in>set (schedules (skipDose scheduleId reason st)). flags_consistent s)
    \<and> (\<forall>s\<in>set (schedules (snoozeDose tz now scheduleId st)). flags_consistent s)"
proof -
  have flags: "\<not> taken s \<and> \<not> skipped s" if "s \<in> set (schedules st)" "id_sched s = scheduleId" for s
    using that cons target open_flags by blast
  have upd: "\<forall>s\<in>set (map (\<lambda>s. if id_sched s = scheduleId then f s else s) (schedules st)).
               flags_consistent s"
    if f: "\<And>s. \<not> taken s \<and> \<not> skipped s \<Longrightarrow> flags_consistent (f s)" for f
  proof (rule map_update_consistent [OF cons], intro ballI impI)
    fix s assume "s \<in> set (schedules st)" "id_sched s = scheduleId"
    then show "flags_consistent (f s)" using flags f by blast
  qed
  have taken_ok: "\<forall>s\<in>set (schedules (markDoseTaken now env scheduleId st)). flags_consistent s"
  proof (cases "find (\<lambda>s. id_sched s = scheduleId) (schedules st)")
    case None
    then show ?thesis using cons by (simp add: markDoseTaken_def)
  next
    case (Some sch)
    show ?thesis
      unfolding markDoseTaken_found [OF Some, THEN conjunct1]
      by (rule upd) (simp add: flags_consistent_def)
  qed
  have late_ok: "\<forall>s\<in>set (schedules (markTakenLate now scheduleId st)). flags_consistent s"
    unfolding markTakenLate_schedules by (rule upd) (simp add: flags_consistent_def)
  have skip_ok: "\<forall>s\<in>set (schedules (skipDose scheduleId reason st)). flags_consistent s"
    unfolding skipDose_schedules by (rule upd) (simp add: flags_consistent_def)
  have snooze_ok: "\<forall>s\<in>set (schedules (snoozeDose tz now scheduleId st)). flags_consistent s"
    unfolding snoozeDose_schedules by (rule upd) (simp add: flags_consistent_def)
  from taken_ok late_ok skip_ok snooze_ok show ?thesis by (intro conjI)
qed

theorem lifecycle_keeps_flags_consistent_witness:
  "list_all flags_consistent (schedules sample_state)
   \<and> list_all (\<lambda>s. id_sched s = ''2'' \<longrightarrow> status s = Pending \<or> status s = Snoozed)
        (schedules sample_state)
   \<and> list_ex (\<lambda>s. id_sched s = ''2'') (schedules sample_state)
   \<and> list_all flags_consistent (schedules (markDoseTaken 1705300000000 sample_env ''2'' sample_state))
   \<and> list_all flags_consistent (schedules (markTakenLate 1705300000000 ''2'' sample_state))
   \<and> list_all flags_consistent (schedules (skipDose ''2'' (Some ''nausea'') sample_state))
   \<and> list_all flags_consistent
        (schedules (snoozeDose (fixed_zone 19800000) 1705300000000 ''2'' sample_state))"
proof -
  have ex: "list_ex (\<lambda>s. id_sched s = ''2'') (schedules sample_state)"
    by (simp add: sample_state_def sampleSchedules_def sample_schedule_def)
  note after = lifecycle_keeps_flags_consistent [OF sample_state_consistent sample_state_target2,
      where now = 1705300000000 and env = sample_env and reason = "Some ''nausea''"
        and tz = "fixed_zone 19800000"]
  show ?thesis
    using sample_state_consistent sample_state_target2 ex after
    unfolding Ball_set by (intro conjI) blast+
qed

text \<open>
  The claim as first stated, for any starting status, fails: a schedule that is missed
  (flag \<open>skipped\<close> set, in agreement) and is then marked taken keeps its \<open>skipped\<close> flag
  under the status taken.
\<close>

theorem flags_consistency_counterexample:
  "flags_consistent (schedules missed_state ! 0)
   \<and> status (schedules missed_state ! 0) = Missed
   \<and> \<not> flags_consistent (schedules (markDoseTaken 1705306000000 sample_env ''1'' missed_state) ! 0)"
  by (simp add: missed_state_def sample_schedule_def flags_consistent_def markDoseTaken_def)

text \<open>
  C6. \<open>snoozeDose\<close> sets the status of the schedule with the given id to snoozed and
  leaves the medicine list as it was. Its \<open>snoozeUntil\<close> is the time at which the local
  clock reads thirty minutes more than at the invocation, which is not always thirty
  minutes later. In New York on 3 November 2024 an invocation at 01:45 daylight time
  (time value 1730612700000) gives 02:15 standard time, 90 minutes after the invocation,
  and an invocation at 01:15 standard time (1730614500000) gives 01:45 daylight time, 30
  minutes before the invocation. In a zone without offset changes the same invocation gives
  the time 30 minutes later.
\<close>

theorem snoozeDose_across_offset_change:
  "status (schedules (snoozeDose new_york_2024 1730612700000 ''2'' sample_state) ! 1) = Snoozed
   \<and> snoozeUntil (schedules (snoozeDose new_york_2024 1730612700000 ''2'' sample_state) ! 1)
       = Some (1730612700000 + 90 * 60 * 1000)
   \<and> snoozeUntil (schedules (snoozeDose new_york_2024 1730614500000 ''2'' sample_state) ! 1)
       = Some (1730614500000 - 30 * 60 * 1000)
   \<and> snoozeUntil (schedules (snoozeDose (fixed_zone 19800000) 1730612700000 ''2'' sample_state) ! 1)
       = Some (1730612700000 + 30 * 60 * 1000)
   \<and> medicines (snoozeDose new_york_2024 1730612700000 ''2'' sample_state) = medicines sample_state"
  by (simp add: snoozeDose_def Let_def setMinutes_getMinutes UTC_def LocalTime_def
      new_york_2024_def fixed_zone_def sample_state_def sampleSchedules_def sample_schedule_def)

text \<open>
  C9. For a schedule id that no schedule of the list has, each of the four dose-lifecycle
  operations returns the state it was given: schedule list, medicine list and refill-order
  list are unchanged. The operations are total functions of the state with no failing
  branch.
\<close>

theorem missing_schedule_is_noop:
  assumes "scheduleId \<notin> id_sched ` set (schedules st)"
  shows "markDoseTaken now env scheduleId st = st
    \<and> skipDose scheduleId reason st = st
    \<and> snoozeDose tz now scheduleId st = st
    \<and> markTakenLate now scheduleId st = st"
  using assms
  by (simp add: markDoseTaken_missing skipDose_missing snoozeDose_missing markTakenLate_missing)

theorem missing_schedule_is_noop_witness:
  "''9'' \<notin> id_sched ` set (schedules sample_state)
   \<and> markDoseTaken 1705300000000 sample_env ''9'' sample_state = sample_state
   \<and> skipDose ''9'' None sample_state = sample_state
   \<and> snoozeDose (fixed_zone 19800000) 1705300000000 ''9'' sample_state = sample_state
   \<and> markTakenLate 1705300000000 ''9'' sample_state = sample_state"
proof -
  have h: "''9'' \<notin> id_sched ` set (schedules sample_state)"
    by (simp add: sample_state_def sampleSchedules_def sample_schedule_def)
  from missing_schedule_is_noop [OF h, where now = 1705300000000 and env = sample_env
      and reason = None and tz = "fixed_zone 19800000"] h
  show ?thesis by simp
qed

text \<open>
  C10. Over every run of dose-lifecycle operations, remaining quantities that are at least
  0 stay at least 0. \<open>skipDose\<close> and \<open>snoozeDose\<close> leave the medicine list unchanged, and
  so do \<open>markDoseTaken\<close> and \<open>markTakenLate\<close> when the lookup finds no schedule; when it
  finds one, both replace the remaining quantity \<open>r\<close> of each medicine whose id is the
  schedule's \<open>medicineId\<close> by \<open>max 0 (r - 1)\<close> and leave every other medicine as it was.
\<close>

theorem stock_never_negative:
  "((\<forall>m\<in>set (medicines st). 0 \<le> remainingQuantity m) \<longrightarrow>
      (\<forall>m\<in>set (medicines (run st acts)). 0 \<le> remainingQuantity m))
   \<and> medicines (skipDose scheduleId reason st) = medicines st
   \<and> medicines (snoozeDose tz now scheduleId st) = medicines st
   \<and> (find (\<lambda>s. id_sched s = scheduleId) (schedules st) = None \<longrightarrow>
        medicines (markDoseTaken now env scheduleId st) = medicines st
        \<and> medicines (markTakenLate now scheduleId st) = medicines st)
   \<and> (\<forall>sch. find (\<lambda>s. id_sched s = scheduleId) (schedules st) = Some sch \<longrightarrow>
        medicines (markTakenLate now scheduleId st) = medicines (markDoseTaken now env scheduleId st)
        \<and> length (medicines (markDoseTaken now env scheduleId st)) = length (medicines st)
        \<and> (\<forall>j<length (medicines st).
              medicines (markDoseTaken now env scheduleId st) ! j =
                (if id_med (medicines st ! j) = medicineId sch
                 then (medicines st ! j)
                        \<lparr>remainingQuantity := max 0 (remainingQuantity (medicines st ! j) - 1)\<rparr>
                 else medicines st ! j)))"
proof (intro conjI allI impI)
  assume "\<forall>m\<in>set (medicines st). 0 \<le> remainingQuantity m"
  then show "\<forall>m\<in>set (medicines (run st acts)). 0 \<le> remainingQuantity m"
    by (rule run_nonneg)
next
  show "medicines (skipDose scheduleId reason st) = medicines st"
    by (rule skipDose_medicines)
next
  show "medicines (snoozeDose tz now scheduleId st) = medicines st"
    by (rule snoozeDose_medicines)
next
  assume "find (\<lambda>s. id_sched s = scheduleId) (schedules st) = None"
  then show "medicines (markDoseTaken now env scheduleId st) = medicines st"
    and "medicines (markTakenLate now scheduleId st) = medicines st"
    by (simp_all add: markDoseTaken_medicines markTakenLate_medicines)
next
  fix sch assume f: "find (\<lambda>s. id_sched s = scheduleId) (schedules st) = Some sch"
  then show "medicines (markTakenLate now scheduleId st) = medicines (markDoseTaken now env scheduleId st)"
    by (simp add: markDoseTaken_medicines markTakenLate_medicines)
  from f show "length (medicines (markDoseTaken now env scheduleId st)) = length (medicines st)"
    by (simp add: markDoseTaken_medicines updateStock_length)
  fix j assume "j < length (medicines st)"
  with f show "medicines (markDoseTaken now env scheduleId st) ! j =
                (if id_med (medicines st ! j) = medicineId sch
                 then (medicines st ! j)
                        \<lparr>remainingQuantity := max 0 (remainingQuantity (medicines st ! j) - 1)\<rparr>
                 else medicines st ! j)"
    by (simp add: markDoseTaken_medicines updateStock_nth)
qed

theorem stock_never_negative_witness:
  "list_all (\<lambda>m. 0 \<le> remainingQuantity m) (medicines sample_state)
   \<and> list_all (\<lambda>m. 0 \<le> remainingQuantity m) (medicines (run sample_state sample_actions))
   \<and> map remainingQuantity (medicines sample_state) = [8, 4, 15]
   \<and> map remainingQuantity (medicines (run sample_state sample_actions)) = [7, 3, 15]"
proof -
  have before: "map remainingQuantity (medicines sample_state) = [8, 4, 15]"
    by (simp add: sample_state_def sampleMedicines_def sample_medicine_def)
  from stock_never_negative [of sample_state sample_actions] sample_state_nonneg
  have "\<forall>m\<in>set (medicines (run sample_state sample_actions)). 0 \<le> remainingQuantity m"
    by blast
  with sample_state_nonneg before sample_run_stock show ?thesis
    unfolding Ball_set by (intro conjI)
qed

section \<open>Hardware telemetry and activity log\<close>

text \<open>
  C7. A telemetry fetch in which channel requests fail. Each failed channel gets the
  fallback of its handler: a randomized value in the channel's range for \<open>V0\<close> to
  \<open>V3\<close>, \<open>V5\<close> and \<open>V6\<close>, the fixed 0 for \<open>V4\<close>. The handlers absorb every
  rejection, so the fetch takes the branch that sets \<open>isConnected\<close> and the snapshot's
  connectivity flag to true, whether one request or all seven fail; the offline branch,
  which sets the flag to false, is not entered.
\<close>

theorem fetchAllSensorData_rejected_stays_connected:
  "fetchAllSensorData sample_draws all_rejected =
     (True,
      \<lparr>pillCount = 35, batteryLevel = 70, temperature = 27, humidity = 42,
       dispenserStatus = 0, motionSensor = True, lastDispensed = 1705299100000,
       connected_flag = True\<rparr>)
   \<and> connected_flag (snd (fetchAllSensorData sample_draws one_rejected)) = True
   \<and> batteryLevel (snd (fetchAllSensorData sample_draws one_rejected)) = 70"
  by (simp add: fetchAllSensorData_def all_rejected_def one_rejected_def sample_draws_def
      catch_with_def or_default_def Boolean_def Let_def)

text \<open>
  C8. After any sequence of insertions into the empty log, the activity log has at most
  50 entries and holds the most recent 50 insertions, newest first. One insertion puts
  the new entry in front; into a log of 50 entries it drops the last entry, which is the
  oldest, and a log of at most 50 entries stays at most 50 long.
\<close>

theorem activity_log_bounded:
  "length (activities_after inserted) \<le> 50
   \<and> activities_after inserted = take 50 (rev inserted)
   \<and> (length entries \<le> 50 \<longrightarrow> length (addActivity a entries) \<le> 50)
   \<and> (length entries < 50 \<longrightarrow> addActivity a entries = a # entries)
   \<and> (length entries = 50 \<longrightarrow> addActivity a entries = a # butlast entries)"
proof -
  have eq: "activities_after inserted = take 50 (rev inserted)"
    unfolding activities_after_def using foldl_addActivity [of "[]" inserted] by simp
  have full: "addActivity a entries = a # butlast entries" if "length entries = 50"
    using that by (simp add: addActivity_take butlast_conv_take)
  from eq full show ?thesis by (simp add: addActivity_take)
qed

theorem activity_log_bounded_witness:
  "length (map sample_activity (rev [0..<50])) = 50
   \<and> addActivity (sample_activity 50) (map sample_activity (rev [0..<50]))
       = sample_activity 50 # butlast (map sample_activity (rev [0..<50]))
   \<and> length (addActivity (sample_activity 50) (map sample_activity (rev [0..<50]))) = 50
   \<and> last (map sample_activity (rev [0..<50])) = sample_activity 0
   \<and> length (addActivity (sample_activity 1) [sample_activity 0]) = 2
   \<and> addActivity (sample_activity 1) [sample_activity 0] = [sample_activity 1, sample_activity 0]"
proof -
  let ?entries = "map sample_activity (rev [0..<50])"
  have len: "length ?entries = 50" by simp
  have small: "length [sample_activity 0] < 50" by simp
  note inst = activity_log_bounded [of "[]" ?entries "sample_activity 50"]
  note inst1 = activity_log_bounded [of "[]" "[sample_activity 0]" "sample_activity 1"]
  have a: "addActivity (sample_activity 50) ?entries = sample_activity 50 # butlast ?entries"
    using inst len by blast
  have b: "addActivity (sample_activity 1) [sample_activity 0] = [sample_activity 1, sample_activity 0]"
    using inst1 small by blast
  have c: "last ?entries = sample_activity 0"
    by (simp add: last_map last_rev)
  show ?thesis
    unfolding a b using len c by simp
qed

end
